theory Spec2Isabelle
  imports Complex_Main "HOL-Library.Word"
begin

section \<open>JavaScript strings\<close>

text \<open>
  A JavaScript string is a sequence of UTF-16 code units; \<open>text.length\<close> counts them.
  String literals of the source are ASCII and are written through \<open>js\<close>.
\<close>

type_synonym code_unit = "16 word"
type_synonym js_string = "code_unit list"

definition js :: "string \<Rightarrow> js_string" where
  "js s = map of_char s"

text \<open>
  \<open>String.prototype.trim\<close> strips the ECMAScript WhiteSpace and LineTerminator code points
  from both ends.
\<close>

definition isWhiteSpace :: "code_unit \<Rightarrow> bool" where
  "isWhiteSpace c \<longleftrightarrow>
     c \<in> {0x9, 0xA, 0xB, 0xC, 0xD, 0x20, 0xA0, 0x1680, 0x2028, 0x2029, 0x202F, 0x205F,
          0x3000, 0xFEFF}
     \<or> (0x2000 \<le> c \<and> c \<le> 0x200A)"

definition js_trim :: "js_string \<Rightarrow> js_string" where
  "js_trim s = rev (dropWhile isWhiteSpace (rev (dropWhile isWhiteSpace s)))"

text \<open>A string that \<open>trim\<close> returns unchanged and that is not empty.\<close>

definition tight :: "js_string \<Rightarrow> bool" where
  "tight s \<longleftrightarrow> (case s of [] \<Rightarrow> False | c # cs \<Rightarrow> \<not> (isWhiteSpace c \<or> isWhiteSpace (last s)))"

text \<open>\<open>Array.prototype.join\<close>.\<close>

fun js_join :: "js_string \<Rightarrow> js_string list \<Rightarrow> js_string" where
  "js_join sep [] = []"
| "js_join sep [x] = x"
| "js_join sep (x # y # ys) = x @ sep @ js_join sep (y # ys)"

text \<open>
  The result of an awaited promise: fulfilled with a value, or rejected with an error whose
  \<open>message\<close> is carried (a missing message is the empty string, which is falsy as
  \<open>undefined\<close> is).
\<close>

datatype 'a settled = Fulfilled 'a | Rejected js_string

text \<open>
  A promise of the platform that is awaited with nothing racing it: it settles after some
  time (in ms), or it stays pending for ever.
\<close>

datatype 'a promise = Pending | Settles nat "'a settled"

section \<open>The voice hook (\<open>useVoiceAI\<close>)\<close>

record VoiceAIState =
  isListening :: bool
  isProcessing :: bool
  isSpeaking :: bool
  transcript :: js_string
  error :: "js_string option"
  isConnected :: bool

datatype role = User | Assistant

record JournalCreate =
  user_id :: nat
  content :: js_string
  prompt_used :: "js_string option"
  is_voice_entry :: bool
  voice_transcript :: js_string
  entry_type :: js_string

datatype feedback = ImpactMedium | NotifySuccess | NotifyError

text \<open>
  Everything the hook and the screen do to the outside world, in the order it happens:
  each \<open>setState\<close> (the state the UI renders next) and each call into the platform or
  the backend.
\<close>

datatype effect =
    SetState VoiceAIState
  | RequestPermissions
  | SetAudioMode bool
  | SocketOpen
  | SocketClose
  | CreateRecording
  | StopAndUnload
  | UploadAudio js_string
  | GetReflection js_string
  | GetQuestion
  | GetAvailableVoices
  | SpeechSpeak js_string
  | SpeechStop
  | JournalsCreate JournalCreate
  | Haptics feedback
  | RouterReplace

text \<open>
  The hook: its React state, its refs, the shared audio-session mode of the OS, the log of
  effects, and the state of the component that embeds the hook (reached only through the
  callbacks of the options).
\<close>

record 'ui hook =
  state :: VoiceAIState
  conversationHistory :: "(role \<times> js_string) list"
  recording :: bool
  deepgramSocket :: bool
  fullTranscript :: js_string
  hasRespondedRef :: bool
  allowsRecordingIOS :: bool
  effects :: "effect list"
  ui :: 'ui

record 'ui options =
  onTranscript :: "(js_string \<Rightarrow> 'ui \<Rightarrow> 'ui) option"
  onResponse :: "(js_string \<Rightarrow> 'ui \<Rightarrow> 'ui) option"
  onError :: "(js_string \<Rightarrow> 'ui \<Rightarrow> 'ui) option"
  onPartialTranscript :: "(js_string \<Rightarrow> 'ui \<Rightarrow> 'ui) option"
  recordOnly :: bool
  startingQuestion :: "js_string option"

definition setState :: "(VoiceAIState \<Rightarrow> VoiceAIState) \<Rightarrow> 'ui hook \<Rightarrow> 'ui hook" where
  "setState f h = h\<lparr>state := f (state h), effects := effects h @ [SetState (f (state h))]\<rparr>"

definition perform :: "effect \<Rightarrow> 'ui hook \<Rightarrow> 'ui hook" where
  "perform e h = h\<lparr>effects := effects h @ [e]\<rparr>"

text \<open>\<open>options.cb?.(x)\<close>: nothing happens when the callback was not supplied.\<close>

definition invoke :: "('a \<Rightarrow> 'ui \<Rightarrow> 'ui) option \<Rightarrow> 'a \<Rightarrow> 'ui hook \<Rightarrow> 'ui hook" where
  "invoke cb x h = (case cb of None \<Rightarrow> h | Some f \<Rightarrow> h\<lparr>ui := f x (ui h)\<rparr>)"

definition initialState :: VoiceAIState where
  "initialState = \<lparr>isListening = False, isProcessing = False, isSpeaking = False,
     transcript = [], error = None, isConnected = False\<rparr>"

definition mount :: "'ui \<Rightarrow> 'ui hook" where
  "mount u = \<lparr>state = initialState, conversationHistory = [], recording = False,
     deepgramSocket = False, fullTranscript = [], hasRespondedRef = False,
     allowsRecordingIOS = False, effects = [], ui = u\<rparr>"

definition keyMissing :: "js_string \<Rightarrow> bool" where
  "keyMissing key \<longleftrightarrow> key = [] \<or> key = js ''your_deepgram_api_key_here''"

subsection \<open>\<open>speak\<close>\<close>

text \<open>
  The environment of one utterance: what becomes of the voice lookup
  \<open>Speech.getAvailableVoicesAsync()\<close>, and when (in ms after \<open>Speech.speak\<close> was called)
  the platform fires \<open>onDone\<close> and \<open>onError\<close>, if ever.
\<close>

record speak_env =
  env_voices :: "unit promise"
  env_onDone :: "nat option"
  env_onError :: "nat option"

datatype branch = OnDone | OnError | Timer

text \<open>
  \<open>Promise.race\<close> over signals that may never fire: the earliest signal that does fire wins
  (the one listed first on a tie); no winner when none fires.
\<close>

fun first_settled :: "('a \<times> nat option) list \<Rightarrow> ('a \<times> nat) option" where
  "first_settled [] = None"
| "first_settled ((b, None) # rest) = first_settled rest"
| "first_settled ((b, Some t) # rest) =
     (case first_settled rest of
        None \<Rightarrow> Some (b, t)
      | Some (b', t') \<Rightarrow> if t \<le> t' then Some (b, t) else Some (b', t'))"

text \<open>
  \<open>Math.max(3000, Math.ceil(text.length / 15) * 1000)\<close>. The quotient of a string length
  by 15 is exact enough in double precision for \<open>Math.ceil\<close> to return the mathematical
  ceiling.
\<close>

definition timeoutMs :: "js_string \<Rightarrow> nat" where
  "timeoutMs text = max 3000 (nat \<lceil>real (length text) / 15\<rceil> * 1000)"

text \<open>
  What the winning branch of the race does: \<open>onDone\<close> and the timer clear the flag and
  resolve; \<open>onError\<close> clears the flag and rejects, and the \<open>catch\<close> clears it again.
\<close>

fun settle_race :: "(branch \<times> nat) option \<Rightarrow> 'ui hook \<Rightarrow> nat option \<times> 'ui hook" where
  "settle_race None h = (None, h)"
| "settle_race (Some (OnDone, t)) h =
     (Some t, setState (\<lambda>prev. prev\<lparr>isSpeaking := False\<rparr>) h)"
| "settle_race (Some (OnError, t)) h =
     (Some t, setState (\<lambda>prev. prev\<lparr>isSpeaking := False\<rparr>)
                (setState (\<lambda>prev. prev\<lparr>isSpeaking := False\<rparr>) h))"
| "settle_race (Some (Timer, t)) h =
     (Some t, setState (\<lambda>prev. prev\<lparr>isSpeaking := False\<rparr>) h)"

definition speak_race :: "speak_env \<Rightarrow> js_string \<Rightarrow> (branch \<times> nat) option" where
  "speak_race env text =
     first_settled [(OnDone, env_onDone env), (OnError, env_onError env),
                    (Timer, Some (timeoutMs text))]"

text \<open>
  \<open>speak\<close> returns the time at which its promise resolves, in ms after \<open>speak(text)\<close> was
  called, or \<open>None\<close> when it never resolves. The voice lookup is awaited before the race
  and its timer exist: while it is pending nothing else happens. The signals that lose the race
  still fire later and clear \<open>isSpeaking\<close> once more; that is the event
  \<open>SpeechCallback\<close> of a session below.
\<close>

definition later :: "nat \<Rightarrow> nat option \<times> 'ui hook \<Rightarrow> nat option \<times> 'ui hook" where
  "later d r = (map_option (\<lambda>t. d + t) (fst r), snd r)"

definition speak :: "speak_env \<Rightarrow> js_string \<Rightarrow> 'ui hook \<Rightarrow> nat option \<times> 'ui hook" where
  "speak env text h =
     (if js_trim text = [] then (Some 0, h)
      else
        let h1 = setState (\<lambda>prev. prev\<lparr>isSpeaking := True\<rparr>) h;
            h2 = perform GetAvailableVoices h1
        in case env_voices env of
             Pending \<Rightarrow> (None, h2)
           | Settles d (Rejected e) \<Rightarrow>
               (Some d, setState (\<lambda>prev. prev\<lparr>isSpeaking := False\<rparr>) h2)
           | Settles d (Fulfilled u) \<Rightarrow>
               later d (settle_race (speak_race env text) (perform (SpeechSpeak text) h2)))"

definition stopSpeaking :: "'ui hook \<Rightarrow> 'ui hook" where
  "stopSpeaking h = setState (\<lambda>prev. prev\<lparr>isSpeaking := False\<rparr>) (perform SpeechStop h)"

subsection \<open>\<open>transcribeAudioFile\<close>\<close>

definition sampleTranscripts :: "js_string list" where
  "sampleTranscripts =
     [js ''I had a really productive day today'',
      js ''Feeling a bit stressed about work'',
      js ''Had a wonderful conversation with a friend'',
      js ''I've been thinking about my goals'',
      js ''Today was challenging but rewarding'']"

text \<open>
  The environment of the upload: the value of \<open>Math.random()\<close> (in \<open>[0, 1)\<close> by the
  language), and the outcome of the two fetches, fulfilled with the transcript field of the
  reply (\<open>None\<close> when the reply has none).
\<close>

record transcribe_env =
  env_random :: real
  env_upload :: "js_string option settled"

definition transcribeAudioFile ::
  "js_string \<Rightarrow> transcribe_env \<Rightarrow> js_string \<Rightarrow> 'ui hook \<Rightarrow> 'ui hook" where
  "transcribeAudioFile key env uri h =
     (if keyMissing key then
        (let i = nat \<lfloor>env_random env * real (length sampleTranscripts)\<rfloor>
         in h\<lparr>fullTranscript := (if i < length sampleTranscripts then sampleTranscripts ! i else [])\<rparr>)
      else
        let h1 = perform (UploadAudio uri) h
        in case env_upload env of
             Fulfilled r \<Rightarrow>
               (if r \<noteq> None \<and> the r \<noteq> [] then h1\<lparr>fullTranscript := the r\<rparr> else h1)
           | Rejected e \<Rightarrow> h1\<lparr>fullTranscript := js ''I'd like to reflect on my day''\<rparr>)"

subsection \<open>\<open>startListening\<close> and the streaming socket\<close>

record start_env =
  env_permission :: "bool settled"
  env_recordMode :: "unit settled"
  env_connect :: "unit settled"
  env_createAsync :: "unit settled"

definition start_catch :: "'ui options \<Rightarrow> js_string \<Rightarrow> 'ui hook \<Rightarrow> 'ui hook" where
  "start_catch opts msg h =
     invoke (onError opts) msg
       (setState (\<lambda>prev. prev\<lparr>isListening := False,
          error := Some (if msg \<noteq> [] then msg else js ''Failed to start recording'')\<rparr>) h)"

definition connectToDeepgram :: "unit settled \<Rightarrow> 'ui hook \<Rightarrow> 'ui hook" where
  "connectToDeepgram r h =
     (let h1 = perform SocketOpen h
      in case r of
           Fulfilled _ \<Rightarrow> (setState (\<lambda>prev. prev\<lparr>isConnected := True\<rparr>) h1)\<lparr>deepgramSocket := True\<rparr>
         | Rejected e \<Rightarrow>
             setState (\<lambda>prev. prev\<lparr>error := Some (js ''Connection error''), isConnected := False\<rparr>) h1)"

definition start_recording :: "js_string \<Rightarrow> 'ui options \<Rightarrow> start_env \<Rightarrow> 'ui hook \<Rightarrow> 'ui hook" where
  "start_recording key opts env h =
     (let h1 = (if keyMissing key then h else connectToDeepgram (env_connect env) h);
          h2 = perform CreateRecording h1
      in case env_createAsync env of
           Rejected e \<Rightarrow> start_catch opts e h2
         | Fulfilled _ \<Rightarrow> h2\<lparr>recording := True\<rparr>)"

definition configure_audio :: "js_string \<Rightarrow> 'ui options \<Rightarrow> start_env \<Rightarrow> 'ui hook \<Rightarrow> 'ui hook" where
  "configure_audio key opts env h =
     (let h1 = perform (SetAudioMode True) h
      in case env_recordMode env of
           Rejected e \<Rightarrow> start_catch opts e h1
         | Fulfilled _ \<Rightarrow> start_recording key opts env (h1\<lparr>allowsRecordingIOS := True\<rparr>))"

definition startListening :: "js_string \<Rightarrow> 'ui options \<Rightarrow> start_env \<Rightarrow> 'ui hook \<Rightarrow> 'ui hook" where
  "startListening key opts env h =
     (let h1 = (setState (\<lambda>prev. prev\<lparr>isListening := True, error := None, transcript := []\<rparr>) h)
                 \<lparr>fullTranscript := []\<rparr>;
          h2 = perform RequestPermissions h1
      in case env_permission env of
           Rejected e \<Rightarrow> start_catch opts e h2
         | Fulfilled granted \<Rightarrow>
             if granted then configure_audio key opts env h2
             else start_catch opts (js ''Microphone permission not granted'') h2)"

text \<open>
  A frame from the transcription socket: the transcript of the first alternative (\<open>None\<close>
  when the frame has none or does not parse) and \<open>is_final\<close>.
\<close>

record frame =
  frame_transcript :: "js_string option"
  is_final :: bool

definition socket_onmessage :: "'ui options \<Rightarrow> frame \<Rightarrow> 'ui hook \<Rightarrow> 'ui hook" where
  "socket_onmessage opts f h =
     (case frame_transcript f of
        None \<Rightarrow> h
      | Some t \<Rightarrow>
          if t = [] \<or> js_trim t = [] then h
          else if is_final f then
            (let full = fullTranscript h @ (if fullTranscript h \<noteq> [] then js '' '' else []) @ t
             in invoke (onPartialTranscript opts) full
                  (setState (\<lambda>prev. prev\<lparr>transcript := full\<rparr>) (h\<lparr>fullTranscript := full\<rparr>)))
          else invoke (onPartialTranscript opts) (fullTranscript h @ js '' '' @ t) h)"

subsection \<open>\<open>stopListening\<close>\<close>

record stop_env =
  env_stopAndUnload :: "unit settled"
  env_getURI :: "js_string option"
  env_transcribe :: transcribe_env
  env_getReflection :: "js_string option settled"
  env_speech :: speak_env
  env_playbackMode :: "unit settled"

text \<open>A block of a \<open>try\<close>: it completes, or throws with the state it had reached.\<close>

datatype 'a attempt = Normal 'a | Throws js_string 'a

definition stop_catch :: "'ui options \<Rightarrow> js_string \<Rightarrow> 'ui hook \<Rightarrow> 'ui hook" where
  "stop_catch opts msg h =
     invoke (onError opts) msg
       (setState (\<lambda>prev. prev\<lparr>isProcessing := False,
          error := Some (if msg \<noteq> [] then msg else js ''Failed to process recording'')\<rparr>) h)"

text \<open>
  Lines 238 to 253: stop the recording, close the socket, upload when nothing was streamed.
  The \<open>close\<close> event of the socket, whose handler clears \<open>isConnected\<close>, is delivered
  later; it is the event \<open>SocketCloses\<close> of a session below.
\<close>

definition stop_recording :: "js_string \<Rightarrow> stop_env \<Rightarrow> 'ui hook \<Rightarrow> 'ui hook attempt" where
  "stop_recording key env h =
     (if recording h then
        (let h1 = perform StopAndUnload h
         in case env_stopAndUnload env of
              Rejected e \<Rightarrow> Throws e h1
            | Fulfilled _ \<Rightarrow>
                let h2 = h1\<lparr>recording := False\<rparr>;
                    h3 = (if deepgramSocket h2
                          then (perform SocketClose h2)\<lparr>deepgramSocket := False\<rparr>
                          else h2)
                in Normal (if fullTranscript h3 = [] \<and> env_getURI env \<noteq> None \<and> the (env_getURI env) \<noteq> []
                           then transcribeAudioFile key (env_transcribe env) (the (env_getURI env)) h3
                           else h3))
      else Normal h)"

text \<open>Lines 292 to 295, the last statement of the \<open>try\<close>, and the \<open>catch\<close> when it throws.\<close>

definition reset_audio_mode :: "'ui options \<Rightarrow> stop_env \<Rightarrow> 'ui hook \<Rightarrow> 'ui hook" where
  "reset_audio_mode opts env h =
     (let h1 = perform (SetAudioMode False) h
      in case env_playbackMode env of
           Fulfilled _ \<Rightarrow> h1\<lparr>allowsRecordingIOS := False\<rparr>
         | Rejected e \<Rightarrow> stop_catch opts e h1)"

definition fallbackResponse :: js_string where
  "fallbackResponse = js ''Thank you for sharing. I'm here to listen.''"

definition noSpeechMessage :: js_string where
  "noSpeechMessage = js ''No speech detected. Please try again.''"

text \<open>
  \<open>stopListening\<close> runs without interruption between its awaits. The only await that waits
  for the backend is the reflection request, so the function is modelled in two halves:
  \<open>stopListening_dispatch\<close> runs up to the moment the request has been sent (or to the end,
  when no request is sent), and \<open>stopListening_resume\<close> runs from the reply to the end.
  The outcomes of the other awaits are part of the environment.
\<close>

datatype 'ui suspended = Finished "'ui hook" | AwaitingReflection js_string "'ui hook"

definition process_transcript :: "'ui options \<Rightarrow> stop_env \<Rightarrow> 'ui hook \<Rightarrow> 'ui suspended" where
  "process_transcript opts env h =
     (let finalTranscript = js_trim (fullTranscript h)
      in if finalTranscript \<noteq> [] then
           (let h1 = invoke (onTranscript opts) finalTranscript
                       (setState (\<lambda>prev. prev\<lparr>transcript := finalTranscript\<rparr>) h)
            in if recordOnly opts then
                 Finished (reset_audio_mode opts env
                   (setState (\<lambda>prev. prev\<lparr>isProcessing := False\<rparr>) h1))
               else if \<not> hasRespondedRef h1 then
                 AwaitingReflection finalTranscript
                   (perform (GetReflection finalTranscript) (h1\<lparr>hasRespondedRef := True\<rparr>))
               else
                 Finished (reset_audio_mode opts env
                   (setState (\<lambda>prev. prev\<lparr>isProcessing := False\<rparr>) h1)))
         else
           Finished (reset_audio_mode opts env
             (invoke (onError opts) noSpeechMessage
               (setState (\<lambda>prev. prev\<lparr>isProcessing := False\<rparr>) h))))"

definition stopListening_dispatch ::
  "js_string \<Rightarrow> 'ui options \<Rightarrow> stop_env \<Rightarrow> 'ui hook \<Rightarrow> 'ui suspended" where
  "stopListening_dispatch key opts env h =
     (case stop_recording key env
             (setState (\<lambda>prev. prev\<lparr>isListening := False, isProcessing := True\<rparr>) h) of
        Throws e h1 \<Rightarrow> Finished (stop_catch opts e h1)
      | Normal h1 \<Rightarrow> process_transcript opts env h1)"

definition reflectionResponse :: "js_string option settled \<Rightarrow> js_string" where
  "reflectionResponse r =
     (case r of
        Fulfilled res \<Rightarrow>
          (if res \<noteq> None \<and> js_trim (the res) \<noteq> [] then js_trim (the res) else fallbackResponse)
      | Rejected e \<Rightarrow> fallbackResponse)"

definition stopListening_resume ::
  "'ui options \<Rightarrow> stop_env \<Rightarrow> js_string \<Rightarrow> 'ui hook \<Rightarrow> 'ui hook" where
  "stopListening_resume opts env finalTranscript h =
     (let response = reflectionResponse (env_getReflection env);
          h1 = h\<lparr>conversationHistory :=
                  conversationHistory h @ [(User, finalTranscript), (Assistant, response)]\<rparr>;
          h2 = setState (\<lambda>prev. prev\<lparr>isProcessing := False\<rparr>) h1;
          h3 = invoke (onResponse opts) response h2;
          spoken = speak (env_speech env) response h3
      in case fst spoken of
           None \<Rightarrow> snd spoken
         | Some t \<Rightarrow> reset_audio_mode opts env (snd spoken))"

definition stopListening :: "js_string \<Rightarrow> 'ui options \<Rightarrow> stop_env \<Rightarrow> 'ui hook \<Rightarrow> 'ui hook" where
  "stopListening key opts env h =
     (case stopListening_dispatch key opts env h of
        Finished h1 \<Rightarrow> h1
      | AwaitingReflection finalTranscript h1 \<Rightarrow> stopListening_resume opts env finalTranscript h1)"

subsection \<open>The other operations of the hook\<close>

record greet_env =
  env_question :: "js_string option settled"
  env_greeting :: speak_env

definition defaultQuestion :: js_string where
  "defaultQuestion = js ''How are you feeling right now?''"

definition fetchedQuestion :: "js_string option settled \<Rightarrow> js_string" where
  "fetchedQuestion r =
     (case r of
        Fulfilled q \<Rightarrow> (if q \<noteq> None \<and> the q \<noteq> [] then the q else defaultQuestion)
      | Rejected e \<Rightarrow> defaultQuestion)"

definition announce :: "'ui options \<Rightarrow> speak_env \<Rightarrow> js_string \<Rightarrow> 'ui hook \<Rightarrow> 'ui hook" where
  "announce opts env text h =
     snd (speak env text
       (invoke (onResponse opts) text
         (h\<lparr>conversationHistory := conversationHistory h @ [(Assistant, text)]\<rparr>)))"

definition greet :: "'ui options \<Rightarrow> greet_env \<Rightarrow> 'ui hook \<Rightarrow> 'ui hook" where
  "greet opts env h =
     (let supplied = (case startingQuestion opts of None \<Rightarrow> [] | Some q \<Rightarrow> js_trim q)
      in if supplied \<noteq> [] then announce opts (env_greeting env) supplied h
         else announce opts (env_greeting env) (fetchedQuestion (env_question env))
                (perform GetQuestion h))"

definition prompts :: "js_string list" where
  "prompts =
     [js ''Let me offer you a thought to reflect on: What small moment of joy did you experience today?'',
      js ''Here's something to consider: If you could change one thing about your day, what would it be?'',
      js ''Let me suggest: What are you most grateful for right now?'',
      js ''Think about this: What's one thing you learned about yourself recently?'',
      js ''Consider this: Who made a positive impact on your day, and why?'']"

definition suggestPrompt :: "'ui options \<Rightarrow> real \<Rightarrow> speak_env \<Rightarrow> 'ui hook \<Rightarrow> 'ui hook" where
  "suggestPrompt opts random env h =
     (let i = nat \<lfloor>random * real (length prompts)\<rfloor>
      in announce opts env (if i < length prompts then prompts ! i else []) h)"

definition resetForNewSession :: "'ui hook \<Rightarrow> 'ui hook" where
  "resetForNewSession h = h\<lparr>hasRespondedRef := False, conversationHistory := [], fullTranscript := []\<rparr>"

text \<open>
  \<open>cleanup\<close>, run when the component unmounts. An error of \<open>stopAndUnloadAsync\<close> is
  caught and ignored, so its outcome makes no difference.
\<close>

definition cleanup :: "'ui hook \<Rightarrow> 'ui hook" where
  "cleanup h =
     (let h1 = (if recording h then (perform StopAndUnload h)\<lparr>recording := False\<rparr> else h);
          h2 = (if deepgramSocket h1
                then (perform SocketClose h1)\<lparr>deepgramSocket := False\<rparr>
                else h1)
      in perform SpeechStop h2)"

definition toggleListening ::
  "js_string \<Rightarrow> 'ui options \<Rightarrow> start_env \<Rightarrow> stop_env \<Rightarrow> 'ui hook \<Rightarrow> 'ui hook" where
  "toggleListening key opts senv env h =
     (if isListening (state h) then stopListening key opts env h
      else startListening key opts senv h)"

subsection \<open>Sessions of the hook\<close>

text \<open>
  What can happen to a mounted hook between two calls of \<open>resetForNewSession\<close>. A turn is
  either run to its end (\<open>Stop\<close>) or suspended at the reflection request
  (\<open>StopDispatch\<close>), to be resumed when the reply arrives (\<open>ReflectionArrives i\<close> resumes
  the \<open>i\<close>-th suspended turn), with anything else happening in between. The platform also
  calls back on its own: the \<open>close\<close> event of a socket (\<open>SocketCloses\<close>), and the
  \<open>onDone\<close>, \<open>onError\<close> or timer of an utterance whose race is already decided
  (\<open>SpeechCallback\<close>).
\<close>

datatype action =
    Start start_env
  | SocketMessage frame
  | Stop stop_env
  | StopDispatch stop_env
  | ReflectionArrives nat
  | Speak speak_env js_string
  | StopSpeaking
  | Greet greet_env
  | SuggestPrompt real speak_env
  | SocketCloses
  | SpeechCallback

type_synonym 'ui config = "'ui hook \<times> (stop_env \<times> js_string) list"

fun step :: "js_string \<Rightarrow> 'ui options \<Rightarrow> action \<Rightarrow> 'ui config \<Rightarrow> 'ui config" where
  "step key opts (Start e) (h, ps) = (startListening key opts e h, ps)"
| "step key opts (SocketMessage f) (h, ps) =
     (if deepgramSocket h then socket_onmessage opts f h else h, ps)"
| "step key opts (Stop e) (h, ps) = (stopListening key opts e h, ps)"
| "step key opts (StopDispatch e) (h, ps) =
     (case stopListening_dispatch key opts e h of
        Finished h1 \<Rightarrow> (h1, ps)
      | AwaitingReflection t h1 \<Rightarrow> (h1, ps @ [(e, t)]))"
| "step key opts (ReflectionArrives i) (h, ps) =
     (if i < length ps
      then (stopListening_resume opts (fst (ps ! i)) (snd (ps ! i)) h, take i ps @ drop (Suc i) ps)
      else (h, ps))"
| "step key opts (Speak e text) (h, ps) = (snd (speak e text h), ps)"
| "step key opts StopSpeaking (h, ps) = (stopSpeaking h, ps)"
| "step key opts (Greet e) (h, ps) = (greet opts e h, ps)"
| "step key opts (SuggestPrompt r e) (h, ps) = (suggestPrompt opts r e h, ps)"
| "step key opts SocketCloses (h, ps) =
     (setState (\<lambda>prev. prev\<lparr>isConnected := False\<rparr>) h, ps)"
| "step key opts SpeechCallback (h, ps) =
     (setState (\<lambda>prev. prev\<lparr>isSpeaking := False\<rparr>) h, ps)"

fun run :: "js_string \<Rightarrow> 'ui options \<Rightarrow> action list \<Rightarrow> 'ui config \<Rightarrow> 'ui config" where
  "run key opts [] c = c"
| "run key opts (a # as) c = run key opts as (step key opts a c)"

definition reflections :: "effect list \<Rightarrow> nat" where
  "reflections es = length (filter (\<lambda>e. case e of GetReflection t \<Rightarrow> True | _ \<Rightarrow> False) es)"

definition utterances :: "effect list \<Rightarrow> nat" where
  "utterances es = length (filter (\<lambda>e. case e of SpeechSpeak t \<Rightarrow> True | _ \<Rightarrow> False) es)"

text \<open>
  The reflection requests made so far, plus the one the session may still make while
  \<open>hasRespondedRef\<close> is unset.
\<close>

definition budget :: "'ui hook \<Rightarrow> nat" where
  "budget h = reflections (effects h) + (if hasRespondedRef h then 0 else 1)"

section \<open>The voice session screen\<close>

text \<open>
  A message of the session log. Its \<open>id\<close> and \<open>timestamp\<close> are list keys for rendering and
  are read by nothing else; they are left out.
\<close>

record Message =
  role :: role
  content :: js_string

record screen =
  messages :: "Message list"
  isSessionActive :: bool

record params =
  prompt :: "js_string option"
  recordOnlyParam :: "js_string option"

definition addMessage :: "role \<Rightarrow> js_string \<Rightarrow> screen \<Rightarrow> screen" where
  "addMessage r c scr = scr\<lparr>messages := messages scr @ [\<lparr>role = r, content = c\<rparr>]\<rparr>"

definition screenRecordOnly :: "params \<Rightarrow> bool" where
  "screenRecordOnly p \<longleftrightarrow> recordOnlyParam p = Some (js ''true'') \<or> recordOnlyParam p = Some (js ''1'')"

definition promptQuestion :: "params \<Rightarrow> js_string option" where
  "promptQuestion p =
     (case prompt p of
        None \<Rightarrow> None
      | Some q \<Rightarrow> if js_trim q \<noteq> [] then Some (js_trim q) else None)"

definition screenOptions :: "params \<Rightarrow> screen options" where
  "screenOptions p =
     \<lparr>onTranscript = Some (addMessage User),
      onResponse = (if screenRecordOnly p then None else Some (addMessage Assistant)),
      onError = None,
      onPartialTranscript = None,
      recordOnly = screenRecordOnly p,
      startingQuestion = promptQuestion p\<rparr>"

definition handleStartSession :: "params \<Rightarrow> greet_env \<Rightarrow> screen hook \<Rightarrow> screen hook" where
  "handleStartSession p env h =
     (let h1 = perform (Haptics ImpactMedium)
                 (resetForNewSession (h\<lparr>ui := (ui h)\<lparr>isSessionActive := True\<rparr>\<rparr>))
      in if screenRecordOnly p then h1
         else case promptQuestion p of
                Some q \<Rightarrow> snd (speak (env_greeting env) q (h1\<lparr>ui := addMessage Assistant q (ui h1)\<rparr>))
              | None \<Rightarrow> greet (screenOptions p) env h1)"

definition userTranscript :: "Message list \<Rightarrow> js_string" where
  "userTranscript ms = js_join (js '' '') (map content (filter (\<lambda>m. role m = User) ms))"

definition handleEndSession :: "nat \<Rightarrow> params \<Rightarrow> unit settled \<Rightarrow> screen hook \<Rightarrow> screen hook" where
  "handleEndSession uid p created h =
     (let h1 = stopSpeaking (h\<lparr>ui := (ui h)\<lparr>isSessionActive := False\<rparr>\<rparr>);
          transcript = userTranscript (messages (ui h1));
          h2 = (if js_trim transcript \<noteq> [] then
                  perform (Haptics (case created of Fulfilled _ \<Rightarrow> NotifySuccess
                                                   | Rejected e \<Rightarrow> NotifyError))
                    (perform (JournalsCreate
                       \<lparr>user_id = uid, JournalCreate.content = js_trim transcript,
                        prompt_used = prompt p, is_voice_entry = True,
                        voice_transcript = js_trim transcript,
                        entry_type = js ''voice_note''\<rparr>) h1)
                else h1)
      in perform RouterReplace h2)"

definition handleClose :: "nat \<Rightarrow> params \<Rightarrow> unit settled \<Rightarrow> screen hook \<Rightarrow> screen hook" where
  "handleClose uid p created h =
     (if isSessionActive (ui h) \<and> messages (ui h) \<noteq> [] then handleEndSession uid p created h
      else perform RouterReplace (stopSpeaking h))"

datatype screen_action = HandleStartSession greet_env | Hook action

fun screen_step :: "js_string \<Rightarrow> params \<Rightarrow> screen_action \<Rightarrow> screen config \<Rightarrow> screen config" where
  "screen_step key p (HandleStartSession e) (h, ps) = (handleStartSession p e h, ps)"
| "screen_step key p (Hook a) c = step key (screenOptions p) a c"

fun screen_run :: "js_string \<Rightarrow> params \<Rightarrow> screen_action list \<Rightarrow> screen config \<Rightarrow> screen config" where
  "screen_run key p [] c = c"
| "screen_run key p (a # as) c = screen_run key p as (screen_step key p a c)"

text \<open>The hook state held by a turn, finished or suspended.\<close>

fun held :: "'ui suspended \<Rightarrow> 'ui hook" where
  "held (Finished h) = h"
| "held (AwaitingReflection t h) = h"

definition mountScreen :: "screen hook" where
  "mountScreen = mount \<lparr>messages = [], isSessionActive = False\<rparr>"

text \<open>Every user message of the log is a trimmed, non-empty transcript.\<close>

definition userMessagesTight :: "screen \<Rightarrow> bool" where
  "userMessagesTight scr = list_all tight (map content (filter (\<lambda>m. role m = User) (messages scr)))"


section \<open>Local notifications (\<open>scheduleNotifications\<close>)\<close>

definition CHECK_INTERVAL_MS :: int where
  "CHECK_INTERVAL_MS = 2 * 60 * 1000"














datatype conversation_mode = Voice | Text

record notification =
  title :: js_string
  body :: js_string
  data_screen :: js_string
  data_flowType :: js_string
  trigger_seconds :: "int option"
  trigger_repeats :: bool

datatype notifications_call =
    CancelAllScheduled
  | GetPermissions
  | RequestPermissionsAsync
  | ScheduleNotification notification

text \<open>The device: the notifications the OS holds for the app, and the calls made to it.\<close>

record device =
  scheduled :: "notification list"
  notificationCalls :: "notifications_call list"


definition called :: "notifications_call \<Rightarrow> device \<Rightarrow> device" where
  "called c d = d\<lparr>notificationCalls := notificationCalls d @ [c]\<rparr>"


text \<open>The value \<open>{ ok, error? }\<close> that \<open>scheduleLocalNotifications\<close> resolves to.\<close>

datatype schedule_result = Ok | Failed js_string





definition scheduleRequests :: "notifications_call list \<Rightarrow> notification list" where
  "scheduleRequests cs = concat (map (\<lambda>c. case c of ScheduleNotification n \<Rightarrow> [n] | _ \<Rightarrow> []) cs)"

section \<open>The schedule provider (\<open>ScheduleContext\<close>)\<close>

text \<open>
  The reply of \<open>GET /schedule/{user}/check\<close>: the fetch fails, or answers with a status
  (\<open>response.ok\<close>) and a body (\<open>None\<close> when it is not JSON).
\<close>

record check_body =
  should_trigger :: "bool option"
  conversation_mode :: "js_string option"

datatype check_reply = FetchFailed | Response bool "check_body option"

record check_result =
  shouldTrigger :: bool
  conversationMode :: "js_string option"

definition checkScheduleFromBackend :: "check_reply \<Rightarrow> check_result option" where
  "checkScheduleFromBackend reply =
     (case reply of
        FetchFailed \<Rightarrow> None
      | Response ok data \<Rightarrow>
          if \<not> ok \<or> data = None then None
          else Some \<lparr>shouldTrigger = (should_trigger (the data) = Some True),
                     conversationMode = conversation_mode (the data)\<rparr>)"

datatype app_state = Active | Inactive | Background

record provider =
  appState :: app_state
  lastCheckedRef :: int
  hasTriggeredThisSessionRef :: bool
  alerts :: "js_string list"

text \<open>
  \<open>checkAndPrompt\<close> touches the provider only after its single await, in one uninterrupted
  block; the reply of the backend is its environment.
\<close>

definition checkAndPrompt :: "check_reply \<Rightarrow> provider \<Rightarrow> provider" where
  "checkAndPrompt reply p =
     (let result = checkScheduleFromBackend reply
      in if result = None \<or> \<not> shouldTrigger (the result) \<or> hasTriggeredThisSessionRef p then p
         else p\<lparr>hasTriggeredThisSessionRef := True,
                 alerts := alerts p @ [js ''Is it a good time to talk?'']\<rparr>)"

text \<open>
  The events of one foreground session of the app. The poll timer, the app-state listener and
  the initial check each start a \<open>checkAndPrompt\<close>, whose request is then in flight until
  its reply arrives; replies may arrive after later events.
\<close>

datatype provider_event =
    IntervalTick int
  | AppStateChange app_state
  | ReplyArrives check_reply

type_synonym provider_config = "provider \<times> nat"

definition mountProvider :: "app_state \<Rightarrow> provider_config" where
  "mountProvider current =
     (\<lparr>appState = current, lastCheckedRef = 0, hasTriggeredThisSessionRef = False, alerts = []\<rparr>,
      Suc 0)"

fun provider_step :: "provider_event \<Rightarrow> provider_config \<Rightarrow> provider_config" where
  "provider_step (IntervalTick now) (p, inflight) =
     (if appState p \<noteq> Active then (p, inflight)
      else if now - lastCheckedRef p < CHECK_INTERVAL_MS then (p, inflight)
      else (p\<lparr>lastCheckedRef := now\<rparr>, Suc inflight))"
| "provider_step (AppStateChange nextState) (p, inflight) =
     (let wasBackground = (appState p = Inactive \<or> appState p = Background)
      in (p\<lparr>appState := nextState\<rparr>,
          if wasBackground \<and> nextState = Active then Suc inflight else inflight))"
| "provider_step (ReplyArrives reply) (p, inflight) =
     (case inflight of
        0 \<Rightarrow> (p, inflight)
      | Suc n \<Rightarrow> (checkAndPrompt reply p, n))"

fun provider_run :: "provider_event list \<Rightarrow> provider_config \<Rightarrow> provider_config" where
  "provider_run [] c = c"
| "provider_run (e # es) c = provider_run es (provider_step e c)"

definition positive :: "check_reply \<Rightarrow> bool" where
  "positive reply \<longleftrightarrow>
     (case checkScheduleFromBackend reply of None \<Rightarrow> False | Some r \<Rightarrow> shouldTrigger r)"

text \<open>The alerts shown so far are exactly what the guard says: one if it is set, none if not.\<close>

definition prompted_once :: "provider \<Rightarrow> bool" where
  "prompted_once p \<longleftrightarrow>
     alerts p = (if hasTriggeredThisSessionRef p then [js ''Is it a good time to talk?''] else [])"


section \<open>Concrete inputs\<close>

text \<open>Inputs on which the theorems below are evaluated.\<close>

definition plainOptions :: "unit options" where
  "plainOptions = \<lparr>onTranscript = None, onResponse = None, onError = None,
     onPartialTranscript = None, recordOnly = False, startingQuestion = None\<rparr>"

definition startsFine :: start_env where
  "startsFine = \<lparr>env_permission = Fulfilled True, env_recordMode = Fulfilled (),
     env_connect = Fulfilled (), env_createAsync = Fulfilled ()\<rparr>"

text \<open>The voice lookup answers after 40 ms; the platform never reports the end of speech.\<close>

definition silentSpeech :: speak_env where
  "silentSpeech = \<lparr>env_voices = Settles 40 (Fulfilled ()), env_onDone = None, env_onError = None\<rparr>"


definition unloadFails :: stop_env where
  "unloadFails =
     \<lparr>env_stopAndUnload = Rejected (js ''Cannot unload a Recording that has not been prepared.''),
      env_getURI = None,
      env_transcribe = \<lparr>env_random = 0, env_upload = Fulfilled None\<rparr>,
      env_getReflection = Fulfilled None,
      env_speech = silentSpeech,
      env_playbackMode = Fulfilled ()\<rparr>"

definition replyYes :: check_reply where
  "replyYes = Response True (Some \<lparr>should_trigger = Some True, conversation_mode = Some (js ''voice'')\<rparr>)"

definition replyNo :: check_reply where
  "replyNo = Response True (Some \<lparr>should_trigger = Some False, conversation_mode = Some (js ''voice'')\<rparr>)"






definition demoParams :: params where
  "demoParams = \<lparr>prompt = None, recordOnlyParam = None\<rparr>"

definition greetFine :: greet_env where
  "greetFine = \<lparr>env_question = Fulfilled (Some (js ''What made you smile today?'')),
     env_greeting = silentSpeech\<rparr>"

text \<open>
  A turn without provider credential: the recording stops, the simulated transcript is drawn
  with the given value of \<open>Math.random()\<close>, and the reflection request settles as given.
\<close>

definition turn :: "real \<Rightarrow> js_string option settled \<Rightarrow> stop_env" where
  "turn r reply =
     \<lparr>env_stopAndUnload = Fulfilled (),
      env_getURI = Some (js ''file:///recording.wav''),
      env_transcribe = \<lparr>env_random = r, env_upload = Fulfilled None\<rparr>,
      env_getReflection = reply,
      env_speech = silentSpeech,
      env_playbackMode = Fulfilled ()\<rparr>"

text \<open>
  A session of the screen: the greeting, a first turn that is answered, and a second turn.
\<close>

definition twoTurns :: "screen_action list" where
  "twoTurns =
     [HandleStartSession greetFine,
      Hook (Start startsFine), Hook (Stop (turn 0 (Fulfilled (Some (js ''That sounds good.''))))),
      Hook (Start startsFine), Hook (Stop (turn (1 / 2) (Fulfilled None)))]"

definition greetingOnly :: "screen_action list" where
  "greetingOnly = [HandleStartSession greetFine]"

text \<open>
  A second turn that runs to its end while the reflection request of the first turn is still
  in flight.
\<close>

definition racingTurns :: "action list" where
  "racingTurns =
     [Start startsFine, StopDispatch (turn 0 (Fulfilled (Some (js ''That sounds good.'')))),
      Start startsFine, Stop (turn (1 / 2) (Fulfilled None)),
      ReflectionArrives 0]"

definition firstListening :: "screen hook" where
  "firstListening =
     startListening [] (screenOptions demoParams) startsFine (resetForNewSession mountScreen)"

definition secondListening :: "screen hook" where
  "secondListening =
     startListening [] (screenOptions demoParams) startsFine
       (held (stopListening_dispatch [] (screenOptions demoParams)
          (turn 0 (Fulfilled (Some (js ''That sounds good.'')))) firstListening))"

text \<open>
  A turn with a provider credential in which the user says nothing: the socket opens, no frame
  arrives, and the upload of the recording answers with an empty transcript.
\<close>

definition silence :: stop_env where
  "silence =
     \<lparr>env_stopAndUnload = Fulfilled (),
      env_getURI = Some (js ''file:///recording.wav''),
      env_transcribe = \<lparr>env_random = 0, env_upload = Fulfilled (Some [])\<rparr>,
      env_getReflection = Fulfilled None,
      env_speech = silentSpeech,
      env_playbackMode = Fulfilled ()\<rparr>"

text \<open>Options whose only callback is an \<open>onError\<close> that records what it is told.\<close>

definition listeningOptions :: "js_string list options" where
  "listeningOptions = \<lparr>onTranscript = None, onResponse = None,
     onError = Some (\<lambda>message heard. heard @ [message]),
     onPartialTranscript = None, recordOnly = False, startingQuestion = None\<rparr>"


section \<open>Basic facts about the state updates\<close>

lemma setState_simps [simp]:
  "state (setState f h) = f (state h)"
  "effects (setState f h) = effects h @ [SetState (f (state h))]"
  "conversationHistory (setState f h) = conversationHistory h"
  "recording (setState f h) = recording h"
  "deepgramSocket (setState f h) = deepgramSocket h"
  "fullTranscript (setState f h) = fullTranscript h"
  "hasRespondedRef (setState f h) = hasRespondedRef h"
  "allowsRecordingIOS (setState f h) = allowsRecordingIOS h"
  "ui (setState f h) = ui h"
  by (simp_all add: setState_def)

lemma perform_simps [simp]:
  "state (perform e h) = state h"
  "effects (perform e h) = effects h @ [e]"
  "conversationHistory (perform e h) = conversationHistory h"
  "recording (perform e h) = recording h"
  "deepgramSocket (perform e h) = deepgramSocket h"
  "fullTranscript (perform e h) = fullTranscript h"
  "hasRespondedRef (perform e h) = hasRespondedRef h"
  "allowsRecordingIOS (perform e h) = allowsRecordingIOS h"
  "ui (perform e h) = ui h"
  by (simp_all add: perform_def)

lemma invoke_simps [simp]:
  "state (invoke cb x h) = state h"
  "effects (invoke cb x h) = effects h"
  "conversationHistory (invoke cb x h) = conversationHistory h"
  "recording (invoke cb x h) = recording h"
  "deepgramSocket (invoke cb x h) = deepgramSocket h"
  "fullTranscript (invoke cb x h) = fullTranscript h"
  "hasRespondedRef (invoke cb x h) = hasRespondedRef h"
  "allowsRecordingIOS (invoke cb x h) = allowsRecordingIOS h"
  "ui (invoke cb x h) = (case cb of None \<Rightarrow> ui h | Some f \<Rightarrow> f x (ui h))"
  by (simp_all add: invoke_def split: option.splits)

section \<open>Facts about the schedule provider\<close>

lemma checkAndPrompt_prompted_once: "prompted_once p \<Longrightarrow> prompted_once (checkAndPrompt reply p)"
  by (simp add: prompted_once_def checkAndPrompt_def Let_def)

lemma provider_step_prompted_once:
  "prompted_once (fst c) \<Longrightarrow> prompted_once (fst (provider_step e c))"
proof (cases c)
  case (Pair p n)
  assume "prompted_once (fst c)"
  with Pair show ?thesis
    by (cases e)
       (auto simp: prompted_once_def Let_def
          checkAndPrompt_prompted_once [unfolded prompted_once_def] split: nat.splits)
qed

lemma provider_run_prompted_once:
  "prompted_once (fst c) \<Longrightarrow> prompted_once (fst (provider_run es c))"
  by (induction es arbitrary: c) (simp_all add: provider_step_prompted_once)

lemma mount_prompted_once: "prompted_once (fst (mountProvider s))"
  by (simp add: mountProvider_def prompted_once_def)

lemma checkAndPrompt_negative: "\<not> positive reply \<Longrightarrow> checkAndPrompt reply p = p"
  by (auto simp: positive_def checkAndPrompt_def Let_def split: option.splits)

lemma provider_step_negative:
  "(\<forall>r. e = ReplyArrives r \<longrightarrow> \<not> positive r) \<Longrightarrow>
   hasTriggeredThisSessionRef (fst (provider_step e c)) = hasTriggeredThisSessionRef (fst c)
   \<and> alerts (fst (provider_step e c)) = alerts (fst c)"
  by (cases c; cases e) (auto simp: Let_def checkAndPrompt_negative split: nat.splits)

lemma provider_run_negative:
  "(\<forall>r. ReplyArrives r \<in> set es \<longrightarrow> \<not> positive r) \<Longrightarrow>
   hasTriggeredThisSessionRef (fst (provider_run es c)) = hasTriggeredThisSessionRef (fst c)
   \<and> alerts (fst (provider_run es c)) = alerts (fst c)"
proof (induction es arbitrary: c)
  case Nil
  then show ?case by simp
next
  case (Cons e es)
  have "\<forall>r. e = ReplyArrives r \<longrightarrow> \<not> positive r" using Cons.prems by auto
  from provider_step_negative [OF this, of c] Cons.IH [of "provider_step e c"] Cons.prems
  show ?case by simp
qed

section \<open>Facts about \<open>speak\<close>\<close>

lemma ceiling_fifteenth: "nat \<lceil>real n / 15\<rceil> = (n + 14) div 15"
proof -
  define q where "q = (n + 14) div 15"
  have lo: "n \<le> 15 * q" and hi: "15 * q < n + 15"
    unfolding q_def by arith+
  have "real n \<le> real (15 * q)" using lo by (simp only: of_nat_le_iff)
  moreover have "real (15 * q) < real (n + 15)" using hi by (simp only: of_nat_less_iff)
  ultimately have "\<lceil>real n / 15\<rceil> = int q"
    by (intro ceiling_unique) simp_all
  then show ?thesis by (simp add: q_def)
qed

lemma timeoutMs_div: "timeoutMs s = max 3000 ((length s + 14) div 15 * 1000)"
  by (simp add: timeoutMs_def ceiling_fifteenth)

lemma speak_race_winner:
  "\<exists>b t. speak_race env s = Some (b, t)
     \<and> t = Min ({timeoutMs s} \<union> set_option (env_onDone env) \<union> set_option (env_onError env))"
  by (cases "env_onDone env"; cases "env_onError env") (auto simp: speak_race_def min_def)

lemma settle_race_Some [simp]:
  "fst (settle_race (Some (b, t)) h) = Some t"
  "\<not> isSpeaking (state (snd (settle_race (Some (b, t)) h)))"
  "ui (snd (settle_race (Some (b, t)) h)) = ui h"
  "hasRespondedRef (snd (settle_race (Some (b, t)) h)) = hasRespondedRef h"
  "allowsRecordingIOS (snd (settle_race (Some (b, t)) h)) = allowsRecordingIOS h"
  by (cases b; simp)+

lemma later_simps [simp]:
  "fst (later d r) = map_option (\<lambda>t. d + t) (fst r)"
  "snd (later d r) = snd r"
  by (simp_all add: later_def)

text \<open>The four ways in which \<open>speak\<close> can go.\<close>

lemma speak_cases:
  obtains
    (blank) "js_trim s = []" "speak env s h = (Some 0, h)"
  | (pending) "js_trim s \<noteq> []" "env_voices env = Pending"
      "speak env s h =
         (None, perform GetAvailableVoices (setState (\<lambda>prev. prev\<lparr>isSpeaking := True\<rparr>) h))"
  | (rejected) d e where "js_trim s \<noteq> []" "env_voices env = Settles d (Rejected e)"
      "speak env s h =
         (Some d, setState (\<lambda>prev. prev\<lparr>isSpeaking := False\<rparr>)
            (perform GetAvailableVoices (setState (\<lambda>prev. prev\<lparr>isSpeaking := True\<rparr>) h)))"
  | (spoken) d b t where "js_trim s \<noteq> []" "env_voices env = Settles d (Fulfilled ())"
      "speak_race env s = Some (b, t)"
      "speak env s h =
         (Some (d + t), snd (settle_race (Some (b, t))
            (perform (SpeechSpeak s)
               (perform GetAvailableVoices (setState (\<lambda>prev. prev\<lparr>isSpeaking := True\<rparr>) h)))))"
proof (cases "js_trim s = []")
  case True
  then show ?thesis using blank by (simp add: speak_def)
next
  case False
  show ?thesis
  proof (cases "env_voices env")
    case Pending
    then show ?thesis using False pending by (simp add: speak_def Let_def)
  next
    case (Settles d r)
    show ?thesis
    proof (cases r)
      case (Rejected e)
      then show ?thesis using False Settles rejected by (simp add: speak_def Let_def)
    next
      case (Fulfilled u)
      obtain b t where r: "speak_race env s = Some (b, t)" using speak_race_winner by blast
      have "speak env s h =
         (Some (d + t), snd (settle_race (Some (b, t))
            (perform (SpeechSpeak s)
               (perform GetAvailableVoices (setState (\<lambda>prev. prev\<lparr>isSpeaking := True\<rparr>) h)))))"
        using False Settles Fulfilled r by (simp add: speak_def Let_def later_def)
      then show ?thesis using False Settles Fulfilled r spoken by simp
    qed
  qed
qed

lemma speak_resolves:
  "env_voices env = Settles d r \<Longrightarrow> \<exists>t. fst (speak env s h) = Some t \<and> t \<le> d + timeoutMs s"
proof (cases rule: speak_cases [of s env h])
  case (spoken d' b t)
  assume v: "env_voices env = Settles d r"
  have "t = Min ({timeoutMs s} \<union> set_option (env_onDone env) \<union> set_option (env_onError env))"
    using speak_race_winner [of env s] spoken(3) by auto
  then have "t \<le> timeoutMs s" by simp
  then show ?thesis using spoken v by simp
qed auto


lemma speak_pending:
  "js_trim s \<noteq> [] \<Longrightarrow> env_voices env = Pending \<Longrightarrow>
   fst (speak env s h) = None \<and> isSpeaking (state (snd (speak env s h)))
   \<and> utterances (effects (snd (speak env s h))) = utterances (effects h)"
  by (simp add: speak_def Let_def utterances_def)

lemma speak_clears_flag:
  "js_trim s \<noteq> [] \<Longrightarrow> env_voices env \<noteq> Pending \<Longrightarrow>
   \<not> isSpeaking (state (snd (speak env s h)))"
  by (cases rule: speak_cases [of s env h]) simp_all


section \<open>Facts about the simulated transcript\<close>


section \<open>Facts about the local notifications\<close>

lemma called_simps [simp]:
  "scheduled (called c d) = scheduled d"
  "notificationCalls (called c d) = notificationCalls d @ [c]"
  by (simp_all add: called_def)



lemma scheduleRequests_append [simp]:
  "scheduleRequests (xs @ ys) = scheduleRequests xs @ scheduleRequests ys"
  by (simp add: scheduleRequests_def)

lemma scheduleRequests_simps [simp]:
  "scheduleRequests [] = []"
  "scheduleRequests (ScheduleNotification n # cs) = n # scheduleRequests cs"
  "scheduleRequests (CancelAllScheduled # cs) = scheduleRequests cs"
  "scheduleRequests (GetPermissions # cs) = scheduleRequests cs"
  "scheduleRequests (RequestPermissionsAsync # cs) = scheduleRequests cs"
  by (simp_all add: scheduleRequests_def)





section \<open>What each operation of the hook leaves alone\<close>

lemma reflections_simps [simp]:
  "reflections [] = 0"
  "reflections (xs @ ys) = reflections xs + reflections ys"
  "reflections (e # xs) = (case e of GetReflection t \<Rightarrow> 1 | _ \<Rightarrow> 0) + reflections xs"
  by (simp_all add: reflections_def split: effect.splits)

lemma utterances_simps [simp]:
  "utterances [] = 0"
  "utterances (xs @ ys) = utterances xs + utterances ys"
  "utterances (e # xs) = (case e of SpeechSpeak t \<Rightarrow> 1 | _ \<Rightarrow> 0) + utterances xs"
  by (simp_all add: utterances_def split: effect.splits)

lemma speak_footprint [simp]:
  "hasRespondedRef (snd (speak env s h)) = hasRespondedRef h"
  "reflections (effects (snd (speak env s h))) = reflections (effects h)"
  "ui (snd (speak env s h)) = ui h"
proof -
  show "hasRespondedRef (snd (speak env s h)) = hasRespondedRef h"
    by (cases rule: speak_cases [of s env h]) simp_all
  show "reflections (effects (snd (speak env s h))) = reflections (effects h)"
  proof (cases rule: speak_cases [of s env h])
    case (spoken d b t)
    then show ?thesis by (cases b) simp_all
  qed simp_all
  show "ui (snd (speak env s h)) = ui h"
    by (cases rule: speak_cases [of s env h]) simp_all
qed

lemma stop_catch_footprint [simp]:
  "hasRespondedRef (stop_catch opts e h) = hasRespondedRef h"
  "reflections (effects (stop_catch opts e h)) = reflections (effects h)"
  "utterances (effects (stop_catch opts e h)) = utterances (effects h)"
  "ui (stop_catch opts e h) = (case onError opts of None \<Rightarrow> ui h | Some f \<Rightarrow> f e (ui h))"
  by (simp_all add: stop_catch_def split: option.splits)

lemma start_catch_footprint [simp]:
  "hasRespondedRef (start_catch opts e h) = hasRespondedRef h"
  "reflections (effects (start_catch opts e h)) = reflections (effects h)"
  "ui (start_catch opts e h) = (case onError opts of None \<Rightarrow> ui h | Some f \<Rightarrow> f e (ui h))"
  by (simp_all add: start_catch_def split: option.splits)

lemma reset_audio_mode_footprint [simp]:
  "hasRespondedRef (reset_audio_mode opts env h) = hasRespondedRef h"
  "reflections (effects (reset_audio_mode opts env h)) = reflections (effects h)"
  "utterances (effects (reset_audio_mode opts env h)) = utterances (effects h)"
  by (simp_all add: reset_audio_mode_def Let_def split: settled.splits)

lemma reset_audio_mode_ui:
  "onError opts = None \<Longrightarrow> ui (reset_audio_mode opts env h) = ui h"
  by (simp add: reset_audio_mode_def Let_def split: settled.splits)

lemma transcribeAudioFile_footprint [simp]:
  "hasRespondedRef (transcribeAudioFile key env uri h) = hasRespondedRef h"
  "reflections (effects (transcribeAudioFile key env uri h)) = reflections (effects h)"
  "utterances (effects (transcribeAudioFile key env uri h)) = utterances (effects h)"
  "ui (transcribeAudioFile key env uri h) = ui h"
  by (simp_all add: transcribeAudioFile_def Let_def split: settled.splits)

lemma stop_recording_footprint:
  "stop_recording key env h = Normal h' \<or> stop_recording key env h = Throws e h' \<Longrightarrow>
   hasRespondedRef h' = hasRespondedRef h
   \<and> reflections (effects h') = reflections (effects h)
   \<and> utterances (effects h') = utterances (effects h)
   \<and> ui h' = ui h"
  by (auto simp: stop_recording_def Let_def split: if_splits settled.splits)

lemma stop_recording_keeps:
  assumes "stop_recording key env h = Normal recorded"
  shows "state recorded = state h" "ui recorded = ui h"
    "conversationHistory recorded = conversationHistory h"
    "hasRespondedRef recorded = hasRespondedRef h"
    "reflections (effects recorded) = reflections (effects h)"
    "utterances (effects recorded) = utterances (effects h)"
  using assms
  by (auto simp: stop_recording_def transcribeAudioFile_def Let_def
      split: if_splits settled.splits)

lemma process_transcript_finished:
  "process_transcript opts env h = Finished h' \<Longrightarrow>
   hasRespondedRef h' = hasRespondedRef h
   \<and> reflections (effects h') = reflections (effects h)
   \<and> utterances (effects h') = utterances (effects h)"
  by (auto simp: process_transcript_def Let_def split: if_splits)

lemma process_transcript_awaiting:
  "process_transcript opts env h = AwaitingReflection t h' \<Longrightarrow>
   \<not> hasRespondedRef h \<and> hasRespondedRef h' \<and> \<not> recordOnly opts
   \<and> t = js_trim (fullTranscript h) \<and> t \<noteq> []
   \<and> reflections (effects h') = Suc (reflections (effects h))
   \<and> last (effects h') = GetReflection t
   \<and> utterances (effects h') = utterances (effects h)"
  by (auto simp: process_transcript_def Let_def split: if_splits)

lemma process_transcript_responded:
  "hasRespondedRef h \<Longrightarrow> \<exists>h'. process_transcript opts env h = Finished h'"
  by (auto simp: process_transcript_def Let_def split: if_splits)

lemma dispatch_finished:
  "stopListening_dispatch key opts env h = Finished h' \<Longrightarrow>
   hasRespondedRef h' = hasRespondedRef h
   \<and> reflections (effects h') = reflections (effects h)
   \<and> utterances (effects h') = utterances (effects h)"
  by (auto simp: stopListening_dispatch_def split: attempt.splits
      dest!: process_transcript_finished dest: stop_recording_footprint [OF disjI1] stop_recording_footprint [OF disjI2])

lemma dispatch_awaiting:
  "stopListening_dispatch key opts env h = AwaitingReflection t h' \<Longrightarrow>
   \<not> hasRespondedRef h \<and> hasRespondedRef h' \<and> t \<noteq> [] \<and> \<not> recordOnly opts
   \<and> reflections (effects h') = Suc (reflections (effects h))
   \<and> last (effects h') = GetReflection t"
  by (auto simp: stopListening_dispatch_def split: attempt.splits
      dest!: process_transcript_awaiting dest: stop_recording_footprint [OF disjI1])

lemma dispatch_responded:
  "hasRespondedRef h \<Longrightarrow> \<exists>h'. stopListening_dispatch key opts env h = Finished h'"
  using dispatch_awaiting [of key opts env h] by (cases "stopListening_dispatch key opts env h") auto

lemma resume_footprint [simp]:
  "hasRespondedRef (stopListening_resume opts env t h) = hasRespondedRef h"
  "reflections (effects (stopListening_resume opts env t h)) = reflections (effects h)"
  by (simp_all add: stopListening_resume_def Let_def split: option.splits)

lemma connectToDeepgram_footprint [simp]:
  "hasRespondedRef (connectToDeepgram r h) = hasRespondedRef h"
  "reflections (effects (connectToDeepgram r h)) = reflections (effects h)"
  "ui (connectToDeepgram r h) = ui h"
  by (simp_all add: connectToDeepgram_def Let_def split: settled.splits)

lemma start_recording_footprint [simp]:
  "hasRespondedRef (start_recording key opts env h) = hasRespondedRef h"
  "reflections (effects (start_recording key opts env h)) = reflections (effects h)"
  by (simp_all add: start_recording_def Let_def split: settled.splits)

lemma configure_audio_footprint [simp]:
  "hasRespondedRef (configure_audio key opts env h) = hasRespondedRef h"
  "reflections (effects (configure_audio key opts env h)) = reflections (effects h)"
  by (simp_all add: configure_audio_def Let_def split: settled.splits)

lemma startListening_footprint [simp]:
  "hasRespondedRef (startListening key opts env h) = hasRespondedRef h"
  "reflections (effects (startListening key opts env h)) = reflections (effects h)"
  by (simp_all add: startListening_def Let_def split: settled.splits)

lemma socket_onmessage_footprint [simp]:
  "hasRespondedRef (socket_onmessage opts f h) = hasRespondedRef h"
  "reflections (effects (socket_onmessage opts f h)) = reflections (effects h)"
  by (simp_all add: socket_onmessage_def Let_def split: option.splits)

lemma stopSpeaking_footprint [simp]:
  "hasRespondedRef (stopSpeaking h) = hasRespondedRef h"
  "reflections (effects (stopSpeaking h)) = reflections (effects h)"
  "ui (stopSpeaking h) = ui h"
  by (simp_all add: stopSpeaking_def)

lemma announce_footprint [simp]:
  "hasRespondedRef (announce opts env s h) = hasRespondedRef h"
  "reflections (effects (announce opts env s h)) = reflections (effects h)"
  "ui (announce opts env s h) = (case onResponse opts of None \<Rightarrow> ui h | Some f \<Rightarrow> f s (ui h))"
  by (simp_all add: announce_def split: option.splits)

lemma greet_footprint [simp]:
  "hasRespondedRef (greet opts env h) = hasRespondedRef h"
  "reflections (effects (greet opts env h)) = reflections (effects h)"
  by (simp_all add: greet_def Let_def)

lemma suggestPrompt_footprint [simp]:
  "hasRespondedRef (suggestPrompt opts r env h) = hasRespondedRef h"
  "reflections (effects (suggestPrompt opts r env h)) = reflections (effects h)"
  by (simp_all add: suggestPrompt_def Let_def)

lemma stopListening_budget:
  "budget (stopListening key opts env h) \<le> budget h
   \<and> (hasRespondedRef h \<longrightarrow> hasRespondedRef (stopListening key opts env h))"
proof (cases "stopListening_dispatch key opts env h")
  case (Finished h')
  then show ?thesis using dispatch_finished [OF Finished]
    by (simp add: stopListening_def budget_def)
next
  case (AwaitingReflection t h')
  then show ?thesis using dispatch_awaiting [OF AwaitingReflection]
    by (simp add: stopListening_def budget_def)
qed

lemma step_budget:
  "budget (fst (step key opts a c)) \<le> budget (fst c)
   \<and> (hasRespondedRef (fst c) \<longrightarrow> hasRespondedRef (fst (step key opts a c)))"
proof (cases c)
  case (Pair h ps)
  show ?thesis
  proof (cases a)
    case (Stop e)
    then show ?thesis using Pair stopListening_budget [of key opts e h] by simp
  next
    case (StopDispatch e)
    show ?thesis
    proof (cases "stopListening_dispatch key opts e h")
      case (Finished h')
      then show ?thesis using Pair StopDispatch dispatch_finished [OF Finished]
        by (simp add: budget_def)
    next
      case (AwaitingReflection t h')
      then show ?thesis using Pair StopDispatch dispatch_awaiting [OF AwaitingReflection]
        by (simp add: budget_def)
    qed
  qed (simp_all add: Pair budget_def)
qed

lemma run_budget:
  "budget (fst (run key opts acts c)) \<le> budget (fst c)
   \<and> (hasRespondedRef (fst c) \<longrightarrow> hasRespondedRef (fst (run key opts acts c)))"
proof (induction acts arbitrary: c)
  case Nil
  then show ?case by simp
next
  case (Cons a acts)
  show ?case
    using Cons.IH [of "step key opts a c"] step_budget [of key opts a c]
    by auto
qed

lemma session_reflections:
  "reflections (effects (fst (run key opts acts (resetForNewSession h, ps)))) \<le> reflections (effects h) + 1"
proof -
  have "reflections (effects (fst (run key opts acts (resetForNewSession h, ps))))
        \<le> budget (fst (run key opts acts (resetForNewSession h, ps)))"
    by (simp add: budget_def)
  also have "\<dots> \<le> budget (fst (resetForNewSession h, ps))"
    using run_budget by blast
  also have "\<dots> = reflections (effects h) + 1"
    by (simp add: budget_def resetForNewSession_def)
  finally show ?thesis .
qed

lemma followup_silent:
  "hasRespondedRef h \<Longrightarrow>
   reflections (effects (stopListening key opts env h)) = reflections (effects h)
   \<and> utterances (effects (stopListening key opts env h)) = utterances (effects h)"
proof -
  assume r: "hasRespondedRef h"
  then obtain h' where f: "stopListening_dispatch key opts env h = Finished h'"
    using dispatch_responded by blast
  then show ?thesis using dispatch_finished [OF f] by (simp add: stopListening_def)
qed

section \<open>Facts about \<open>trim\<close> and \<open>join\<close>\<close>

lemma tight_iff: "tight s \<longleftrightarrow> s \<noteq> [] \<and> \<not> isWhiteSpace (hd s) \<and> \<not> isWhiteSpace (last s)"
  by (cases s) (simp_all add: tight_def)

lemma dropWhile_id_hd: "xs \<noteq> [] \<Longrightarrow> \<not> P (hd xs) \<Longrightarrow> dropWhile P xs = xs"
  by (cases xs) simp_all

lemma dropWhile_hd: "dropWhile P xs \<noteq> [] \<Longrightarrow> \<not> P (hd (dropWhile P xs))"
  by (metis hd_dropWhile)

lemma tight_trim: "tight s \<Longrightarrow> js_trim s = s"
proof -
  assume t: "tight s"
  then have s: "s \<noteq> []" "\<not> isWhiteSpace (hd s)" "\<not> isWhiteSpace (last s)"
    by (simp_all add: tight_iff)
  have a: "dropWhile isWhiteSpace s = s" using s(1,2) by (rule dropWhile_id_hd)
  have "hd (rev s) = last s" using s(1) by (simp add: hd_rev)
  then have b: "dropWhile isWhiteSpace (rev s) = rev s"
    using s(1,3) by (intro dropWhile_id_hd) simp_all
  show ?thesis by (simp add: js_trim_def a b)
qed

lemma trim_tight: "js_trim s \<noteq> [] \<Longrightarrow> tight (js_trim s)"
proof -
  define a where "a = dropWhile isWhiteSpace s"
  define b where "b = dropWhile isWhiteSpace (rev a)"
  assume "js_trim s \<noteq> []"
  then have b: "b \<noteq> []" by (simp add: js_trim_def a_def b_def)
  then have nb: "\<not> isWhiteSpace (hd b)" unfolding b_def by (rule dropWhile_hd)
  have a: "a \<noteq> []" using b by (auto simp: b_def)
  then have na: "\<not> isWhiteSpace (hd a)" unfolding a_def by (rule dropWhile_hd)
  obtain pre where "rev a = pre @ b"
    unfolding b_def by (metis takeWhile_dropWhile_id)
  then have "last b = last (rev a)" using b by simp
  also have "\<dots> = hd a" using a by (simp add: last_rev)
  finally have lb: "last b = hd a" .
  have "js_trim s = rev b" by (simp add: js_trim_def a_def b_def)
  moreover have "hd (rev b) = last b" using b by (simp add: hd_rev)
  moreover have "last (rev b) = hd b" using b by (simp add: last_rev)
  ultimately show ?thesis using b na nb lb by (simp add: tight_iff)
qed

lemma tight_join:
  "xs \<noteq> [] \<Longrightarrow> list_all tight xs \<Longrightarrow> tight (js_join sep xs)"
proof (induction sep xs rule: js_join.induct)
  case (1 sep)
  then show ?case by simp
next
  case (2 sep x)
  then show ?case by simp
next
  case (3 sep x y ys)
  then have r: "tight (js_join sep (y # ys))" and x: "tight x" by simp_all
  then have "js_join sep (y # ys) \<noteq> []" "x \<noteq> []" by (simp_all add: tight_iff)
  then show ?case using r x by (simp add: tight_iff)
qed

lemma blank_fallback [simp]: "js_trim fallbackResponse = fallbackResponse" "fallbackResponse \<noteq> []"
  by (simp_all add: fallbackResponse_def js_def js_trim_def isWhiteSpace_def)

section \<open>What each operation does to the embedding component\<close>

lemma startListening_ui:
  "onError opts = None \<Longrightarrow> ui (startListening key opts env h) = ui h"
  by (simp add: startListening_def configure_audio_def start_recording_def Let_def
      split: settled.splits)

lemma socket_onmessage_ui:
  "onPartialTranscript opts = None \<Longrightarrow> ui (socket_onmessage opts f h) = ui h"
  by (simp add: socket_onmessage_def Let_def split: option.splits)

lemma process_transcript_ui:
  "onError opts = None \<Longrightarrow>
   ui (held (process_transcript opts env h)) =
     (if js_trim (fullTranscript h) \<noteq> []
      then (case onTranscript opts of None \<Rightarrow> ui h | Some f \<Rightarrow> f (js_trim (fullTranscript h)) (ui h))
      else ui h)"
  by (simp add: process_transcript_def Let_def reset_audio_mode_ui split: option.splits)

lemma dispatch_ui:
  "onError opts = None \<Longrightarrow>
   ui (held (stopListening_dispatch key opts env h)) = ui h
   \<or> (\<exists>t. tight t \<and> ui (held (stopListening_dispatch key opts env h)) =
         (case onTranscript opts of None \<Rightarrow> ui h | Some f \<Rightarrow> f t (ui h)))"
proof (cases "stop_recording key env (setState (\<lambda>prev. prev\<lparr>isListening := False, isProcessing := True\<rparr>) h)")
  case (Normal h1)
  assume e: "onError opts = None"
  have u: "ui h1 = ui h" using stop_recording_footprint [OF disjI1, OF Normal] by simp
  have d: "stopListening_dispatch key opts env h = process_transcript opts env h1"
    using Normal by (simp add: stopListening_dispatch_def)
  show ?thesis
  proof (cases "js_trim (fullTranscript h1) = []")
    case True
    then show ?thesis using process_transcript_ui [OF e, of env h1] u d by simp
  next
    case False
    then have "tight (js_trim (fullTranscript h1))" by (rule trim_tight)
    moreover have "ui (held (stopListening_dispatch key opts env h)) =
        (case onTranscript opts of None \<Rightarrow> ui h | Some f \<Rightarrow> f (js_trim (fullTranscript h1)) (ui h))"
      using process_transcript_ui [OF e, of env h1] u d False by (simp split: option.splits)
    ultimately show ?thesis by blast
  qed
next
  case (Throws x h1)
  assume e: "onError opts = None"
  have u: "ui h1 = ui h" using stop_recording_footprint [OF disjI2, OF Throws] by simp
  show ?thesis using u Throws e by (simp add: stopListening_dispatch_def)
qed

lemma resume_ui:
  "onError opts = None \<Longrightarrow>
   ui (stopListening_resume opts env t h) =
     (case onResponse opts of None \<Rightarrow> ui h
      | Some f \<Rightarrow> f (reflectionResponse (env_getReflection env)) (ui h))"
  by (simp add: stopListening_resume_def Let_def reset_audio_mode_ui split: option.splits)

lemma greet_ui:
  "\<exists>q. ui (greet opts env h) = (case onResponse opts of None \<Rightarrow> ui h | Some f \<Rightarrow> f q (ui h))"
  by (cases "onResponse opts") (auto simp: greet_def Let_def)

lemma suggestPrompt_ui:
  "\<exists>q. ui (suggestPrompt opts r env h) = (case onResponse opts of None \<Rightarrow> ui h | Some f \<Rightarrow> f q (ui h))"
  by (cases "onResponse opts") (auto simp: suggestPrompt_def Let_def)

lemma screenOptions_simps [simp]:
  "onTranscript (screenOptions p) = Some (addMessage User)"
  "onResponse (screenOptions p) = (if screenRecordOnly p then None else Some (addMessage Assistant))"
  "onError (screenOptions p) = None"
  "onPartialTranscript (screenOptions p) = None"
  "recordOnly (screenOptions p) = screenRecordOnly p"
  "startingQuestion (screenOptions p) = promptQuestion p"
  by (simp_all add: screenOptions_def)

lemma userMessagesTight_simps [simp]:
  "userMessagesTight (addMessage Assistant c scr) = userMessagesTight scr"
  "userMessagesTight (addMessage User c scr) = (userMessagesTight scr \<and> tight c)"
  "userMessagesTight (scr\<lparr>isSessionActive := b\<rparr>) = userMessagesTight scr"
  by (auto simp: userMessagesTight_def addMessage_def)

lemma stopListening_tight:
  assumes "userMessagesTight (ui h)"
  shows "userMessagesTight (ui (stopListening key (screenOptions p) env h))"
proof -
  have d: "userMessagesTight (ui (held (stopListening_dispatch key (screenOptions p) env h)))"
    using dispatch_ui [of "screenOptions p" key env h] assms by auto
  show ?thesis
  proof (cases "stopListening_dispatch key (screenOptions p) env h")
    case (Finished h1)
    then show ?thesis using d by (simp add: stopListening_def)
  next
    case (AwaitingReflection t h1)
    then show ?thesis using d by (simp add: stopListening_def resume_ui)
  qed
qed

lemma step_tight:
  assumes "userMessagesTight (ui (fst c))"
  shows "userMessagesTight (ui (fst (step key (screenOptions p) a c)))"
proof (cases c)
  case (Pair h ps)
  with assms have h: "userMessagesTight (ui h)" by simp
  show ?thesis
  proof (cases a)
    case (Start e)
    then show ?thesis using Pair h by (simp add: startListening_ui)
  next
    case (SocketMessage f)
    then show ?thesis using Pair h by (simp add: socket_onmessage_ui)
  next
    case (Stop e)
    then show ?thesis using Pair stopListening_tight [OF h] by simp
  next
    case (StopDispatch e)
    have "userMessagesTight (ui (held (stopListening_dispatch key (screenOptions p) e h)))"
      using dispatch_ui [of "screenOptions p" key e h] h by auto
    then show ?thesis using Pair StopDispatch
      by (cases "stopListening_dispatch key (screenOptions p) e h") simp_all
  next
    case (ReflectionArrives i)
    then show ?thesis using Pair h by (simp add: resume_ui)
  next
    case (Speak e s)
    then show ?thesis using Pair h by simp
  next
    case StopSpeaking
    then show ?thesis using Pair h by simp
  next
    case (Greet e)
    then show ?thesis using Pair h greet_ui [of "screenOptions p" e h] by auto
  next
    case (SuggestPrompt r e)
    then show ?thesis using Pair h suggestPrompt_ui [of "screenOptions p" r e h] by auto
  next
    case SocketCloses
    then show ?thesis using Pair h by simp
  next
    case SpeechCallback
    then show ?thesis using Pair h by simp
  qed
qed

lemma handleStartSession_tight:
  "userMessagesTight (ui h) \<Longrightarrow> userMessagesTight (ui (handleStartSession p e h))"
  using greet_ui [of "screenOptions p" e "perform (Haptics ImpactMedium)
                 (resetForNewSession (h\<lparr>ui := (ui h)\<lparr>isSessionActive := True\<rparr>\<rparr>))"]
  by (auto simp: handleStartSession_def Let_def resetForNewSession_def split: option.splits)

lemma screen_run_tight:
  "userMessagesTight (ui (fst c)) \<Longrightarrow> userMessagesTight (ui (fst (screen_run key p acts c)))"
proof (induction acts arbitrary: c)
  case Nil
  then show ?case by simp
next
  case (Cons a acts)
  have "userMessagesTight (ui (fst (screen_step key p a c)))"
  proof (cases a)
    case (HandleStartSession e)
    then show ?thesis using Cons.prems handleStartSession_tight by (cases c) simp
  next
    case (Hook b)
    then show ?thesis using Cons.prems step_tight by simp
  qed
  then show ?case using Cons.IH by simp
qed

lemma mountScreen_tight: "userMessagesTight (ui mountScreen)"
  by (simp add: mountScreen_def mount_def userMessagesTight_def)

section \<open>Facts about the end of a session\<close>

lemma handleEndSession_effects:
  "effects (handleEndSession uid p created h) =
     effects h @ [SpeechStop, SetState ((state h)\<lparr>isSpeaking := False\<rparr>)]
     @ (if js_trim (userTranscript (messages (ui h))) \<noteq> []
        then [JournalsCreate \<lparr>user_id = uid,
                JournalCreate.content = js_trim (userTranscript (messages (ui h))),
                prompt_used = prompt p, is_voice_entry = True,
                voice_transcript = js_trim (userTranscript (messages (ui h))),
                entry_type = js ''voice_note''\<rparr>,
              Haptics (case created of Fulfilled u \<Rightarrow> NotifySuccess | Rejected e \<Rightarrow> NotifyError)]
        else [])
     @ [RouterReplace]"
  by (simp add: handleEndSession_def Let_def stopSpeaking_def)

lemma userTranscript_tight:
  assumes "userMessagesTight scr"
  shows "js_trim (userTranscript (messages scr)) = userTranscript (messages scr)"
    and "userTranscript (messages scr) = [] \<longleftrightarrow> filter (\<lambda>m. role m = User) (messages scr) = []"
proof -
  define users where "users = map content (filter (\<lambda>m. role m = User) (messages scr))"
  have t: "list_all tight users" using assms by (simp add: userMessagesTight_def users_def)
  have u: "userTranscript (messages scr) = js_join (js '' '') users"
    by (simp add: userTranscript_def users_def)
  show "js_trim (userTranscript (messages scr)) = userTranscript (messages scr)"
  proof (cases "users = []")
    case True
    then show ?thesis by (simp add: u js_trim_def)
  next
    case False
    then show ?thesis using tight_join [OF False t] by (simp add: u tight_trim)
  qed
  show "userTranscript (messages scr) = [] \<longleftrightarrow> filter (\<lambda>m. role m = User) (messages scr) = []"
  proof (cases "users = []")
    case True
    then show ?thesis by (simp add: u) (simp add: users_def)
  next
    case False
    then have "js_join (js '' '') users \<noteq> []" using tight_join [OF False t] by (auto simp: tight_iff)
    then show ?thesis using False by (simp add: u) (simp add: users_def)
  qed
qed

lemma followup_captured:
  assumes "hasRespondedRef h"
    and "stop_recording key env (setState (\<lambda>prev. prev\<lparr>isListening := False, isProcessing := True\<rparr>) h) = Normal h1"
    and "js_trim (fullTranscript h1) \<noteq> []"
  shows "messages (ui (stopListening key (screenOptions p) env h))
           = messages (ui h) @ [\<lparr>role = User, content = js_trim (fullTranscript h1)\<rparr>]"
proof -
  obtain h' where f: "stopListening_dispatch key (screenOptions p) env h = Finished h'"
    using dispatch_responded [OF assms(1)] by blast
  have u: "ui h1 = ui h" using stop_recording_footprint [OF disjI1, OF assms(2)] by simp
  have d: "stopListening_dispatch key (screenOptions p) env h = process_transcript (screenOptions p) env h1"
    using assms(2) by (simp add: stopListening_dispatch_def)
  have "ui (held (process_transcript (screenOptions p) env h1)) = addMessage User (js_trim (fullTranscript h1)) (ui h1)"
    using process_transcript_ui [of "screenOptions p" env h1] assms(3) by simp
  then have "ui h' = addMessage User (js_trim (fullTranscript h1)) (ui h)"
    using f d u by simp
  then show ?thesis using f by (simp add: stopListening_def addMessage_def)
qed

section \<open>Facts about the reply to the first turn\<close>

lemma speak_keeps [simp]:
  "conversationHistory (snd (speak env s h)) = conversationHistory h"
  "error (state (snd (speak env s h))) = error (state h)"
  "isProcessing (state (snd (speak env s h))) = isProcessing (state h)"
  "isListening (state (snd (speak env s h))) = isListening (state h)"
proof -
  show "conversationHistory (snd (speak env s h)) = conversationHistory h"
  proof (cases rule: speak_cases [of s env h])
    case (spoken d b t)
    then show ?thesis by (cases b) simp_all
  qed simp_all
  show "error (state (snd (speak env s h))) = error (state h)"
  proof (cases rule: speak_cases [of s env h])
    case (spoken d b t)
    then show ?thesis by (cases b) simp_all
  qed simp_all
  show "isProcessing (state (snd (speak env s h))) = isProcessing (state h)"
  proof (cases rule: speak_cases [of s env h])
    case (spoken d b t)
    then show ?thesis by (cases b) simp_all
  qed simp_all
  show "isListening (state (snd (speak env s h))) = isListening (state h)"
  proof (cases rule: speak_cases [of s env h])
    case (spoken d b t)
    then show ?thesis by (cases b) simp_all
  qed simp_all
qed

lemma speak_effects:
  assumes "js_trim s \<noteq> []"
  shows "\<exists>rest. effects (snd (speak env s h)) =
           effects h @ [SetState ((state h)\<lparr>isSpeaking := True\<rparr>), GetAvailableVoices] @ rest
         \<and> ((\<exists>d. env_voices env = Settles d (Fulfilled ())) \<longrightarrow>
              (\<exists>more. rest = SpeechSpeak s # more))"
proof (cases rule: speak_cases [of s env h])
  case blank
  then show ?thesis using assms by simp
next
  case pending
  then show ?thesis by simp
next
  case (rejected d e)
  then show ?thesis by simp
next
  case (spoken d b t)
  then show ?thesis by (cases b) simp_all
qed

lemma reset_audio_mode_keeps [simp]:
  "conversationHistory (reset_audio_mode opts env h) = conversationHistory h"
  "isSpeaking (state (reset_audio_mode opts env h)) = isSpeaking (state h)"
  "isListening (state (reset_audio_mode opts env h)) = isListening (state h)"
  by (simp_all add: reset_audio_mode_def stop_catch_def Let_def split: settled.splits)

lemma reset_audio_mode_fulfilled:
  "env_playbackMode env = Fulfilled () \<Longrightarrow>
   state (reset_audio_mode opts env h) = state h
   \<and> ui (reset_audio_mode opts env h) = ui h
   \<and> effects (reset_audio_mode opts env h) = effects h @ [SetAudioMode False]
   \<and> \<not> allowsRecordingIOS (reset_audio_mode opts env h)"
  by (simp add: reset_audio_mode_def Let_def)

lemma reset_audio_mode_effects:
  "\<exists>rest. effects (reset_audio_mode opts env h) = effects h @ rest"
  by (simp add: reset_audio_mode_def stop_catch_def Let_def split: settled.splits)

lemma stop_recording_ignores_reflection:
  "stop_recording key (env\<lparr>env_getReflection := r\<rparr>) h = stop_recording key env h"
  by (auto simp: stop_recording_def Let_def split: settled.splits)

lemma reset_audio_mode_ignores_reflection:
  "reset_audio_mode opts (env\<lparr>env_getReflection := r\<rparr>) h = reset_audio_mode opts env h"
  by (simp add: reset_audio_mode_def Let_def)

lemma process_transcript_ignores_reflection:
  "process_transcript opts (env\<lparr>env_getReflection := r\<rparr>) h = process_transcript opts env h"
  by (simp add: process_transcript_def reset_audio_mode_ignores_reflection Let_def)

lemma dispatch_ignores_reflection:
  "stopListening_dispatch key opts (env\<lparr>env_getReflection := r\<rparr>) h = stopListening_dispatch key opts env h"
  by (simp add: stopListening_dispatch_def stop_recording_ignores_reflection
      process_transcript_ignores_reflection split: attempt.splits)

lemma resume_same_reply:
  "reflectionResponse (env_getReflection env) = reflectionResponse r \<Longrightarrow>
   stopListening_resume opts (env\<lparr>env_getReflection := r\<rparr>) t h = stopListening_resume opts env t h"
  by (simp add: stopListening_resume_def Let_def reset_audio_mode_ignores_reflection
      split: option.splits)

lemma resume_fallback:
  assumes "reflectionResponse (env_getReflection env) = fallbackResponse"
  shows "conversationHistory (stopListening_resume opts env t h)
           = conversationHistory h @ [(User, t), (Assistant, fallbackResponse)]"
    and "\<exists>rest. effects (stopListening_resume opts env t h) =
           effects h @ [SetState ((state h)\<lparr>isProcessing := False\<rparr>),
                        SetState ((state h)\<lparr>isProcessing := False, isSpeaking := True\<rparr>),
                        GetAvailableVoices] @ rest
         \<and> ((\<exists>d. env_voices (env_speech env) = Settles d (Fulfilled ())) \<longrightarrow>
              (\<exists>more. rest = SpeechSpeak fallbackResponse # more))"
    and "env_playbackMode env = Fulfilled () \<Longrightarrow>
           error (state (stopListening_resume opts env t h)) = error (state h)
         \<and> \<not> isProcessing (state (stopListening_resume opts env t h))
         \<and> (env_voices (env_speech env) \<noteq> Pending \<longrightarrow>
              \<not> isSpeaking (state (stopListening_resume opts env t h)))"
proof -
  define h3 where "h3 = invoke (onResponse opts) fallbackResponse
            (setState (\<lambda>prev. prev\<lparr>isProcessing := False\<rparr>)
              (h\<lparr>conversationHistory := conversationHistory h @
                  [(User, t), (Assistant, fallbackResponse)]\<rparr>))"
  define sp where "sp = speak (env_speech env) fallbackResponse h3"
  have r: "stopListening_resume opts env t h =
             (case fst sp of None \<Rightarrow> snd sp | Some d \<Rightarrow> reset_audio_mode opts env (snd sp))"
    by (simp add: stopListening_resume_def Let_def assms h3_def sp_def split: option.splits)
  have h3: "conversationHistory h3 = conversationHistory h @ [(User, t), (Assistant, fallbackResponse)]"
    "effects h3 = effects h @ [SetState ((state h)\<lparr>isProcessing := False\<rparr>)]"
    "state h3 = (state h)\<lparr>isProcessing := False\<rparr>"
    by (simp_all add: h3_def)
  show "conversationHistory (stopListening_resume opts env t h)
           = conversationHistory h @ [(User, t), (Assistant, fallbackResponse)]"
    by (simp add: r sp_def h3(1) split: option.splits)
  obtain rest where rest: "effects (snd sp) =
           effects h3 @ [SetState ((state h3)\<lparr>isSpeaking := True\<rparr>), GetAvailableVoices] @ rest"
      "(\<exists>d. env_voices (env_speech env) = Settles d (Fulfilled ())) \<longrightarrow>
         (\<exists>more. rest = SpeechSpeak fallbackResponse # more)"
    unfolding sp_def using speak_effects [of fallbackResponse "env_speech env" h3] by auto
  obtain tail where tail: "effects (stopListening_resume opts env t h) = effects (snd sp) @ tail"
  proof (cases "fst sp")
    case None
    then have "effects (stopListening_resume opts env t h) = effects (snd sp) @ []" by (simp add: r)
    then show ?thesis using that by blast
  next
    case (Some d)
    then show ?thesis using that reset_audio_mode_effects [of opts env "snd sp"] by (auto simp: r)
  qed
  have "effects (stopListening_resume opts env t h) =
           effects h @ [SetState ((state h)\<lparr>isProcessing := False\<rparr>),
                        SetState ((state h)\<lparr>isProcessing := False, isSpeaking := True\<rparr>),
                        GetAvailableVoices] @ (rest @ tail)"
    by (simp add: tail rest(1) h3)
  moreover have "(\<exists>d. env_voices (env_speech env) = Settles d (Fulfilled ())) \<longrightarrow>
      (\<exists>more. rest @ tail = SpeechSpeak fallbackResponse # more)"
    using rest(2) by auto
  ultimately show "\<exists>rest. effects (stopListening_resume opts env t h) =
           effects h @ [SetState ((state h)\<lparr>isProcessing := False\<rparr>),
                        SetState ((state h)\<lparr>isProcessing := False, isSpeaking := True\<rparr>),
                        GetAvailableVoices] @ rest
         \<and> ((\<exists>d. env_voices (env_speech env) = Settles d (Fulfilled ())) \<longrightarrow>
              (\<exists>more. rest = SpeechSpeak fallbackResponse # more))"
    by blast
  show "error (state (stopListening_resume opts env t h)) = error (state h)
         \<and> \<not> isProcessing (state (stopListening_resume opts env t h))
         \<and> (env_voices (env_speech env) \<noteq> Pending \<longrightarrow>
              \<not> isSpeaking (state (stopListening_resume opts env t h)))"
    if p: "env_playbackMode env = Fulfilled ()"
  proof (cases "fst sp")
    case None
    have "env_voices (env_speech env) = Pending"
    proof (cases "env_voices (env_speech env)")
      case (Settles d r)
      then show ?thesis using speak_resolves [OF Settles, of fallbackResponse h3] None
        by (simp add: sp_def)
    qed simp
    then show ?thesis using None by (simp add: r sp_def h3(3))
  next
    case (Some d)
    then show ?thesis
      using reset_audio_mode_fulfilled [OF p, of opts "snd sp"]
        speak_clears_flag [of fallbackResponse "env_speech env" h3]
      by (simp add: r) (simp add: sp_def h3(3))
  qed
qed

section \<open>Evaluating the concrete sessions\<close>

lemmas session_defs = mountScreen_def mount_def demoParams_def greetFine_def startsFine_def turn_def
      silentSpeech_def handleStartSession_def screenRecordOnly_def promptQuestion_def
      greet_def announce_def fetchedQuestion_def speak_def speak_race_def timeoutMs_div
      startListening_def configure_audio_def start_recording_def keyMissing_def
      stopListening_def stopListening_dispatch_def stop_recording_def transcribeAudioFile_def
      process_transcript_def stopListening_resume_def reflectionResponse_def reset_audio_mode_def
      resetForNewSession_def addMessage_def sampleTranscripts_def Let_def
      initialState_def fallbackResponse_def later_def connectToDeepgram_def

lemma twoTurns_messages:
  "messages (ui (fst (screen_run [] demoParams twoTurns (mountScreen, [])))) =
   [\<lparr>role = Assistant, content = js ''What made you smile today?''\<rparr>,
    \<lparr>role = User, content = js ''I had a really productive day today''\<rparr>,
    \<lparr>role = Assistant, content = js ''That sounds good.''\<rparr>,
    \<lparr>role = User, content = js ''Had a wonderful conversation with a friend''\<rparr>]"
  by (simp add: twoTurns_def greetingOnly_def session_defs js_def js_trim_def isWhiteSpace_def)

lemma greetingOnly_messages:
  "messages (ui (fst (screen_run [] demoParams greetingOnly (mountScreen, [])))) =
   [\<lparr>role = Assistant, content = js ''What made you smile today?''\<rparr>]"
  by (simp add: twoTurns_def greetingOnly_def session_defs js_def js_trim_def isWhiteSpace_def)

lemma first_dispatch:
  "stopListening_dispatch [] (screenOptions demoParams) (turn 0 (Fulfilled (Some (js ''That sounds good.'')))) firstListening
   = AwaitingReflection (js ''I had a really productive day today'')
       (held (stopListening_dispatch [] (screenOptions demoParams) (turn 0 (Fulfilled (Some (js ''That sounds good.'')))) firstListening))"
  by (simp add: firstListening_def session_defs js_def js_trim_def isWhiteSpace_def)

lemma second_listening:
  "hasRespondedRef secondListening"
  "messages (ui secondListening) = [\<lparr>role = User, content = js ''I had a really productive day today''\<rparr>]"
  by (simp_all add: secondListening_def firstListening_def session_defs js_def js_trim_def isWhiteSpace_def)

lemma second_recording:
  "\<exists>h. stop_recording [] (turn (1 / 2) (Fulfilled None))
      (setState (\<lambda>prev. prev\<lparr>isListening := False, isProcessing := True\<rparr>) secondListening) = Normal h
    \<and> fullTranscript h = js ''Had a wonderful conversation with a friend''"
  by (simp add: secondListening_def firstListening_def session_defs js_def js_trim_def isWhiteSpace_def)

lemma racing_reflections:
  "reflections (effects (fst (run [] (screenOptions demoParams) racingTurns (resetForNewSession mountScreen, [])))) = 1"
  "messages (ui (fst (run [] (screenOptions demoParams) racingTurns (resetForNewSession mountScreen, [])))) =
    [\<lparr>role = User, content = js ''I had a really productive day today''\<rparr>,
     \<lparr>role = User, content = js ''Had a wonderful conversation with a friend''\<rparr>,
     \<lparr>role = Assistant, content = js ''That sounds good.''\<rparr>]"
  by (simp_all add: racingTurns_def session_defs js_def js_trim_def isWhiteSpace_def)

lemma failed_dispatch:
  "stopListening_dispatch [] (screenOptions demoParams) (turn 0 (Rejected (js ''Request failed''))) firstListening
   = AwaitingReflection (js ''I had a really productive day today'')
       (held (stopListening_dispatch [] (screenOptions demoParams) (turn 0 (Rejected (js ''Request failed''))) firstListening))"
  "messages (ui (held (stopListening_dispatch [] (screenOptions demoParams) (turn 0 (Rejected (js ''Request failed''))) firstListening)))
   = [\<lparr>role = User, content = js ''I had a really productive day today''\<rparr>]"
  "error (state (held (stopListening_dispatch [] (screenOptions demoParams) (turn 0 (Rejected (js ''Request failed''))) firstListening))) = None"
  by (simp_all add: firstListening_def session_defs js_def js_trim_def isWhiteSpace_def)

lemma silent_recording:
  "\<exists>heard. stop_recording (js ''dg-key'') silence
       (setState (\<lambda>prev. prev\<lparr>isListening := False, isProcessing := True\<rparr>)
          (startListening (js ''dg-key'') listeningOptions startsFine (mount []))) = Normal heard
     \<and> js_trim (fullTranscript heard) = []"
  "\<exists>seen. stop_recording (js ''dg-key'') silence
       (setState (\<lambda>prev. prev\<lparr>isListening := False, isProcessing := True\<rparr>)
          (startListening (js ''dg-key'') (screenOptions demoParams) startsFine mountScreen)) = Normal seen
     \<and> js_trim (fullTranscript seen) = []"
  "ui (startListening (js ''dg-key'') listeningOptions startsFine (mount [])) = []"
  "messages (ui (startListening (js ''dg-key'') (screenOptions demoParams) startsFine mountScreen)) = []"
  "utterances (effects (startListening (js ''dg-key'') (screenOptions demoParams) startsFine mountScreen)) = 0"
  by (simp_all add: session_defs silence_def listeningOptions_def js_def js_trim_def isWhiteSpace_def)

section \<open>The claims\<close>

text \<open>
  C1. In a session, that is from \<open>resetForNewSession\<close> on, whatever the hook is asked to do
  and however turns and replies interleave, at most one reflection request is made. The flag
  \<open>hasRespondedRef\<close> never goes back to false. A turn that sends the request has found the
  flag unset and has set it by the time the request is out, so a turn that starts while the
  reply is awaited sends none. A turn that finds the flag set makes no reflection request and
  speaks nothing; when it resolves a non-empty transcript, the screen appends it to the log as
  a user message.
\<close>

theorem C1_reflection_at_most_once_per_session:
  "reflections (effects (fst (run key opts acts (resetForNewSession h, ps)))) \<le> reflections (effects h) + 1
   \<and> (hasRespondedRef (fst c) \<longrightarrow> hasRespondedRef (fst (run key opts acts c)))
   \<and> (stopListening_dispatch key opts env listening = AwaitingReflection t awaiting \<longrightarrow>
         \<not> hasRespondedRef listening \<and> hasRespondedRef awaiting \<and> last (effects awaiting) = GetReflection t
         \<and> reflections (effects awaiting) = Suc (reflections (effects listening)))
   \<and> (hasRespondedRef responded \<longrightarrow>
         reflections (effects (stopListening key opts env responded)) = reflections (effects responded)
       \<and> utterances (effects (stopListening key opts env responded)) = utterances (effects responded))
   \<and> (hasRespondedRef followUp
        \<and> stop_recording key env (setState (\<lambda>prev. prev\<lparr>isListening := False, isProcessing := True\<rparr>) followUp) = Normal recorded
        \<and> js_trim (fullTranscript recorded) \<noteq> [] \<longrightarrow>
         messages (ui (stopListening key (screenOptions p) env followUp))
           = messages (ui followUp) @ [\<lparr>role = User, content = js_trim (fullTranscript recorded)\<rparr>])"
  using session_reflections [of key opts acts h ps] run_budget [of key opts acts c]
    dispatch_awaiting [of key opts env listening t awaiting] followup_silent [of responded key opts env]
    followup_captured [of followUp key env recorded p]
  by blast

theorem C1_reflection_at_most_once_witness:
  "reflections (effects (fst (run [] (screenOptions demoParams) racingTurns
      (resetForNewSession mountScreen, [])))) = 1
   \<and> \<not> hasRespondedRef firstListening
   \<and> hasRespondedRef (held (stopListening_dispatch [] (screenOptions demoParams)
        (turn 0 (Fulfilled (Some (js ''That sounds good.'')))) firstListening))
   \<and> hasRespondedRef secondListening
   \<and> hasRespondedRef (fst (run [] (screenOptions demoParams) racingTurns (secondListening, [])))
   \<and> reflections (effects (stopListening [] (screenOptions demoParams)
        (turn (1 / 2) (Fulfilled None)) secondListening)) = reflections (effects secondListening)
   \<and> utterances (effects (stopListening [] (screenOptions demoParams)
        (turn (1 / 2) (Fulfilled None)) secondListening)) = utterances (effects secondListening)
   \<and> messages (ui (stopListening [] (screenOptions demoParams)
        (turn (1 / 2) (Fulfilled None)) secondListening)) =
       [\<lparr>role = User, content = js ''I had a really productive day today''\<rparr>,
        \<lparr>role = User, content = js ''Had a wonderful conversation with a friend''\<rparr>]"
proof -
  obtain recorded where rec:
    "stop_recording [] (turn (1 / 2) (Fulfilled None))
      (setState (\<lambda>prev. prev\<lparr>isListening := False, isProcessing := True\<rparr>) secondListening)
     = Normal recorded"
    "fullTranscript recorded = js ''Had a wonderful conversation with a friend''"
    using second_recording by blast
  have tr: "js_trim (fullTranscript recorded) = js ''Had a wonderful conversation with a friend''"
    "js_trim (fullTranscript recorded) \<noteq> []"
    by (simp_all add: rec(2) js_def js_trim_def isWhiteSpace_def)
  note first = C1_reflection_at_most_once_per_session
    [where key = "[]" and opts = "screenOptions demoParams" and acts = racingTurns
       and h = mountScreen and ps = "[]" and c = "(secondListening, [])"
       and env = "turn 0 (Fulfilled (Some (js ''That sounds good.'')))"
       and listening = firstListening and t = "js ''I had a really productive day today''"
       and awaiting = "held (stopListening_dispatch [] (screenOptions demoParams)
          (turn 0 (Fulfilled (Some (js ''That sounds good.'')))) firstListening)"
       and responded = secondListening and followUp = secondListening and recorded = recorded
       and p = demoParams]
  note second = C1_reflection_at_most_once_per_session
    [where key = "[]" and opts = "screenOptions demoParams" and acts = racingTurns
       and h = mountScreen and ps = "[]" and c = "(secondListening, [])"
       and env = "turn (1 / 2) (Fulfilled None)"
       and listening = firstListening and t = "js ''I had a really productive day today''"
       and awaiting = firstListening
       and responded = secondListening and followUp = secondListening and recorded = recorded
       and p = demoParams]
  have a: "\<not> hasRespondedRef firstListening
    \<and> hasRespondedRef (held (stopListening_dispatch [] (screenOptions demoParams)
        (turn 0 (Fulfilled (Some (js ''That sounds good.'')))) firstListening))"
    using first first_dispatch by simp
  have b: "hasRespondedRef (fst (run [] (screenOptions demoParams) racingTurns (secondListening, [])))"
    using first second_listening(1) by simp
  have c: "reflections (effects (stopListening [] (screenOptions demoParams)
        (turn (1 / 2) (Fulfilled None)) secondListening)) = reflections (effects secondListening)
    \<and> utterances (effects (stopListening [] (screenOptions demoParams)
        (turn (1 / 2) (Fulfilled None)) secondListening)) = utterances (effects secondListening)"
    using second second_listening(1) by simp
  have d: "messages (ui (stopListening [] (screenOptions demoParams)
        (turn (1 / 2) (Fulfilled None)) secondListening)) =
       [\<lparr>role = User, content = js ''I had a really productive day today''\<rparr>,
        \<lparr>role = User, content = js ''Had a wonderful conversation with a friend''\<rparr>]"
    using second second_listening rec(1) tr by simp
  show ?thesis using a b c d racing_reflections(1) second_listening(1) by simp
qed

text \<open>
  C2. For every session of the screen (any sequence of session starts and hook operations after
  mount) that is ended through \<open>handleEndSession\<close>: speech is stopped first; with no user
  message in the log nothing is sent to the journal endpoint; with at least one, exactly one
  \<open>journals.create\<close> call is made, after the speech was stopped, whose content is the
  texts of all user messages in order, joined by single spaces.
\<close>

theorem C2_end_of_session_persists_user_transcript:
  "(filter (\<lambda>m. role m = User) (messages (ui (fst (screen_run key p acts (mountScreen, []))))) = [] \<longrightarrow>
      effects (handleEndSession uid p created (fst (screen_run key p acts (mountScreen, [])))) =
        effects (fst (screen_run key p acts (mountScreen, [])))
        @ [SpeechStop,
           SetState ((state (fst (screen_run key p acts (mountScreen, []))))\<lparr>isSpeaking := False\<rparr>),
           RouterReplace])
   \<and> (filter (\<lambda>m. role m = User) (messages (ui (fst (screen_run key p acts (mountScreen, []))))) \<noteq> [] \<longrightarrow>
      effects (handleEndSession uid p created (fst (screen_run key p acts (mountScreen, [])))) =
        effects (fst (screen_run key p acts (mountScreen, [])))
        @ [SpeechStop,
           SetState ((state (fst (screen_run key p acts (mountScreen, []))))\<lparr>isSpeaking := False\<rparr>),
           JournalsCreate
             \<lparr>user_id = uid,
              JournalCreate.content = js_join (js '' '') (map content (filter (\<lambda>m. role m = User)
                (messages (ui (fst (screen_run key p acts (mountScreen, []))))))),
              prompt_used = prompt p,
              is_voice_entry = True,
              voice_transcript = js_join (js '' '') (map content (filter (\<lambda>m. role m = User)
                (messages (ui (fst (screen_run key p acts (mountScreen, []))))))),
              entry_type = js ''voice_note''\<rparr>,
           Haptics (case created of Fulfilled u \<Rightarrow> NotifySuccess | Rejected e \<Rightarrow> NotifyError),
           RouterReplace])"
proof -
  define h where "h = fst (screen_run key p acts (mountScreen, []))"
  have t: "userMessagesTight (ui h)"
    unfolding h_def using screen_run_tight [of "(mountScreen, [])"] mountScreen_tight by simp
  note u = userTranscript_tight [OF t]
  show ?thesis
    unfolding h_def [symmetric]
    using u by (simp add: handleEndSession_effects) (simp add: userTranscript_def)
qed

theorem C2_end_of_session_persists_user_transcript_witness:
  "JournalsCreate
     \<lparr>user_id = 1,
      JournalCreate.content = js ''I had a really productive day today Had a wonderful conversation with a friend'',
      prompt_used = None, is_voice_entry = True,
      voice_transcript = js ''I had a really productive day today Had a wonderful conversation with a friend'',
      entry_type = js ''voice_note''\<rparr>
   \<in> set (effects (handleEndSession 1 demoParams (Fulfilled ()) (fst (screen_run [] demoParams twoTurns (mountScreen, [])))))
   \<and> (\<exists>s. effects (handleEndSession 1 demoParams (Fulfilled ())
          (fst (screen_run [] demoParams greetingOnly (mountScreen, [])))) =
        effects (fst (screen_run [] demoParams greetingOnly (mountScreen, [])))
        @ [SpeechStop, SetState s, RouterReplace])"
proof -
  have p: "prompt demoParams = None" by (simp add: demoParams_def)
  have a: "JournalsCreate
     \<lparr>user_id = 1,
      JournalCreate.content = js ''I had a really productive day today Had a wonderful conversation with a friend'',
      prompt_used = None, is_voice_entry = True,
      voice_transcript = js ''I had a really productive day today Had a wonderful conversation with a friend'',
      entry_type = js ''voice_note''\<rparr>
   \<in> set (effects (handleEndSession 1 demoParams (Fulfilled ()) (fst (screen_run [] demoParams twoTurns (mountScreen, [])))))"
    using C2_end_of_session_persists_user_transcript [of "[]" demoParams twoTurns 1 "Fulfilled ()",
      unfolded twoTurns_messages] p
    by (simp add: js_def)
  have b: "\<exists>s. effects (handleEndSession 1 demoParams (Fulfilled ())
          (fst (screen_run [] demoParams greetingOnly (mountScreen, [])))) =
        effects (fst (screen_run [] demoParams greetingOnly (mountScreen, [])))
        @ [SpeechStop, SetState s, RouterReplace]"
    using C2_end_of_session_persists_user_transcript [of "[]" demoParams greetingOnly 1 "Fulfilled ()",
      unfolded greetingOnly_messages]
    by simp
  show ?thesis using a b by blast
qed







text \<open>
  C5. Within one foreground session (one mount of the provider), whatever the poll timer, the
  app-state listener and the initial check do and in whatever order the replies of the backend
  arrive, the confirmation prompt is shown at most once, and it has been shown exactly when the
  single guard \<open>hasTriggeredThisSessionRef\<close> is set.
\<close>

theorem C5_prompt_at_most_once_per_session:
  "length (alerts (fst (provider_run events (mountProvider current)))) \<le> 1
   \<and> alerts (fst (provider_run events (mountProvider current))) =
       (if hasTriggeredThisSessionRef (fst (provider_run events (mountProvider current)))
        then [js ''Is it a good time to talk?''] else [])"
  using provider_run_prompted_once [OF mount_prompted_once, of events current]
  by (simp add: prompted_once_def)

theorem C5_prompt_at_most_once_witness:
  "alerts (fst (provider_run
      [ReplyArrives replyYes, AppStateChange Background, AppStateChange Active,
       IntervalTick 120000, ReplyArrives replyYes, ReplyArrives replyYes]
      (mountProvider Active)))
   = [js ''Is it a good time to talk?'']"
  using C5_prompt_at_most_once_per_session
    [of "[ReplyArrives replyYes, AppStateChange Background, AppStateChange Active,
          IntervalTick 120000, ReplyArrives replyYes, ReplyArrives replyYes]" Active]
  by (simp add: mountProvider_def checkAndPrompt_def checkScheduleFromBackend_def replyYes_def
      CHECK_INTERVAL_MS_def Let_def)

text \<open>
  C6. When the turn has sent the reflection request and the request fails (\<open>getReflection\<close>
  rejects, as it does on a network error, a timeout and a non-2xx status), the turn goes on
  exactly as if the agent had answered with the fixed fallback sentence: the exchange is
  recorded with the fallback, the screen appends it as an assistant message, the hook switches
  to speaking and, the voice lookup having succeeded, asks the platform to speak the fallback,
  and the error field of the state is left as it was; the turn ends with processing off, and
  with speaking off unless the voice lookup never answers.
\<close>

theorem C6_reflection_failure_gives_fallback:
  assumes d: "stopListening_dispatch key (screenOptions p) env h = AwaitingReflection t awaiting"
    and r: "env_getReflection env = Rejected e"
  shows "stopListening key (screenOptions p) env h =
           stopListening key (screenOptions p) (env\<lparr>env_getReflection := Fulfilled (Some fallbackResponse)\<rparr>) h
    \<and> conversationHistory (stopListening key (screenOptions p) env h) =
          conversationHistory awaiting @ [(User, t), (Assistant, fallbackResponse)]
    \<and> messages (ui (stopListening key (screenOptions p) env h)) =
          messages (ui awaiting) @ [\<lparr>role = Assistant, content = fallbackResponse\<rparr>]
    \<and> (\<exists>rest. effects (stopListening key (screenOptions p) env h) =
          effects awaiting
          @ [SetState ((state awaiting)\<lparr>isProcessing := False\<rparr>),
             SetState ((state awaiting)\<lparr>isProcessing := False, isSpeaking := True\<rparr>),
             GetAvailableVoices]
          @ rest
        \<and> ((\<exists>d. env_voices (env_speech env) = Settles d (Fulfilled ())) \<longrightarrow>
              (\<exists>more. rest = SpeechSpeak fallbackResponse # more)))
    \<and> (env_playbackMode env = Fulfilled () \<longrightarrow>
          error (state (stopListening key (screenOptions p) env h)) = error (state awaiting)
        \<and> \<not> isProcessing (state (stopListening key (screenOptions p) env h))
        \<and> (env_voices (env_speech env) \<noteq> Pending \<longrightarrow>
             \<not> isSpeaking (state (stopListening key (screenOptions p) env h))))"
proof -
  have f: "reflectionResponse (env_getReflection env) = fallbackResponse"
    by (simp add: r reflectionResponse_def)
  have s: "stopListening key (screenOptions p) env h = stopListening_resume (screenOptions p) env t awaiting"
    by (simp add: stopListening_def d)
  have ro: "\<not> screenRecordOnly p" using dispatch_awaiting [OF d] by simp
  have "stopListening key (screenOptions p) (env\<lparr>env_getReflection := Fulfilled (Some fallbackResponse)\<rparr>) h
        = stopListening_resume (screenOptions p) (env\<lparr>env_getReflection := Fulfilled (Some fallbackResponse)\<rparr>) t awaiting"
    by (simp add: stopListening_def dispatch_ignores_reflection d)
  also have "\<dots> = stopListening_resume (screenOptions p) env t awaiting"
  proof (rule resume_same_reply)
    have "reflectionResponse (Fulfilled (Some fallbackResponse)) = fallbackResponse"
      by (simp add: reflectionResponse_def)
    then show "reflectionResponse (env_getReflection env)
                 = reflectionResponse (Fulfilled (Some fallbackResponse))"
      using f by simp
  qed
  finally have same: "stopListening key (screenOptions p) env h =
           stopListening key (screenOptions p) (env\<lparr>env_getReflection := Fulfilled (Some fallbackResponse)\<rparr>) h"
    using s by simp
  have m: "messages (ui (stopListening key (screenOptions p) env h)) =
          messages (ui awaiting) @ [\<lparr>role = Assistant, content = fallbackResponse\<rparr>]"
    using ro by (simp add: s resume_ui f addMessage_def)
  show ?thesis
    using same m resume_fallback [OF f, of "screenOptions p" t awaiting]
    unfolding s [symmetric] by blast
qed

theorem C6_reflection_failure_gives_fallback_witness:
  "messages (ui (stopListening [] (screenOptions demoParams) (turn 0 (Rejected (js ''Request failed''))) firstListening))
     = [\<lparr>role = User, content = js ''I had a really productive day today''\<rparr>,
        \<lparr>role = Assistant, content = js ''Thank you for sharing. I'm here to listen.''\<rparr>]
   \<and> SpeechSpeak (js ''Thank you for sharing. I'm here to listen.'')
        \<in> set (effects (stopListening [] (screenOptions demoParams) (turn 0 (Rejected (js ''Request failed''))) firstListening))
   \<and> error (state (stopListening [] (screenOptions demoParams) (turn 0 (Rejected (js ''Request failed''))) firstListening)) = None"
proof -
  have e: "env_getReflection (turn 0 (Rejected (js ''Request failed''))) = Rejected (js ''Request failed'')"
    "env_voices (env_speech (turn 0 (Rejected (js ''Request failed'')))) = Settles 40 (Fulfilled ())"
    "env_playbackMode (turn 0 (Rejected (js ''Request failed''))) = Fulfilled ()"
    by (simp_all add: turn_def silentSpeech_def)
  from C6_reflection_failure_gives_fallback [OF failed_dispatch(1) e(1)] e(2,3) failed_dispatch(2,3)
  show ?thesis by (auto simp: fallbackResponse_def)
qed

text \<open>
  C7. A turn whose recording stops without error and whose final transcript is empty after
  trimming calls neither \<open>onTranscript\<close> nor \<open>onResponse\<close>, so that no message is appended:
  the hook hands "No speech detected. Please try again." to \<open>options.onError\<close>, which is how
  it surfaces the condition, and does nothing else to the embedding component (nothing at
  all when no \<open>onError\<close> is registered, as in the voice session screen). It starts no
  reflection request and no speech, leaves \<open>isSpeaking\<close>, the history and the flag as they
  were, and ends with listening and processing off: the state goes from processing back to
  idle.
\<close>

theorem C7_empty_transcript_is_reported_and_dropped:
  assumes "stop_recording key env
             (setState (\<lambda>prev. prev\<lparr>isListening := False, isProcessing := True\<rparr>) h) = Normal recorded"
    and "js_trim (fullTranscript recorded) = []"
  shows "stopListening key opts env h =
           reset_audio_mode opts env
             (invoke (onError opts) noSpeechMessage
                (setState (\<lambda>prev. prev\<lparr>isProcessing := False\<rparr>) recorded))
    \<and> (onError opts = None \<longrightarrow> ui (stopListening key opts env h) = ui h)
    \<and> (onError opts = Some report \<and> env_playbackMode env = Fulfilled () \<longrightarrow>
          ui (stopListening key opts env h) = report noSpeechMessage (ui h))
    \<and> reflections (effects (stopListening key opts env h)) = reflections (effects h)
    \<and> utterances (effects (stopListening key opts env h)) = utterances (effects h)
    \<and> conversationHistory (stopListening key opts env h) = conversationHistory h
    \<and> hasRespondedRef (stopListening key opts env h) = hasRespondedRef h
    \<and> isSpeaking (state (stopListening key opts env h)) = isSpeaking (state h)
    \<and> \<not> isListening (state (stopListening key opts env h))
    \<and> \<not> isProcessing (state (stopListening key opts env h))"
proof -
  have s: "stopListening key opts env h =
           reset_audio_mode opts env
             (invoke (onError opts) noSpeechMessage
                (setState (\<lambda>prev. prev\<lparr>isProcessing := False\<rparr>) recorded))"
    using assms
    by (simp add: stopListening_def stopListening_dispatch_def process_transcript_def Let_def)
  note k = stop_recording_keeps [OF assms(1)]
  have u: "onError opts = None \<longrightarrow> ui (stopListening key opts env h) = ui h"
    using k by (simp add: s reset_audio_mode_ui)
  have r: "onError opts = Some report \<and> env_playbackMode env = Fulfilled () \<longrightarrow>
          ui (stopListening key opts env h) = report noSpeechMessage (ui h)"
    using k reset_audio_mode_fulfilled [of env opts] by (simp add: s)
  have c: "reflections (effects (stopListening key opts env h)) = reflections (effects h)"
    "utterances (effects (stopListening key opts env h)) = utterances (effects h)"
    "conversationHistory (stopListening key opts env h) = conversationHistory h"
    "hasRespondedRef (stopListening key opts env h) = hasRespondedRef h"
    "isSpeaking (state (stopListening key opts env h)) = isSpeaking (state h)"
    "\<not> isListening (state (stopListening key opts env h))"
    using k by (simp_all add: s)
  have p: "\<not> isProcessing (state (stopListening key opts env h))"
    by (simp add: s reset_audio_mode_def stop_catch_def Let_def split: settled.splits)
  show ?thesis using s u r c p by blast
qed

theorem C7_empty_transcript_witness:
  "ui (stopListening (js ''dg-key'') listeningOptions silence
         (startListening (js ''dg-key'') listeningOptions startsFine (mount [])))
     = [js ''No speech detected. Please try again.'']
   \<and> messages (ui (stopListening (js ''dg-key'') (screenOptions demoParams) silence
         (startListening (js ''dg-key'') (screenOptions demoParams) startsFine mountScreen)))
     = []
   \<and> \<not> isProcessing (state (stopListening (js ''dg-key'') (screenOptions demoParams) silence
         (startListening (js ''dg-key'') (screenOptions demoParams) startsFine mountScreen)))
   \<and> utterances (effects (stopListening (js ''dg-key'') (screenOptions demoParams) silence
         (startListening (js ''dg-key'') (screenOptions demoParams) startsFine mountScreen))) = 0"
proof -
  obtain heard where heard:
    "stop_recording (js ''dg-key'') silence
       (setState (\<lambda>prev. prev\<lparr>isListening := False, isProcessing := True\<rparr>)
          (startListening (js ''dg-key'') listeningOptions startsFine (mount []))) = Normal heard"
    "js_trim (fullTranscript heard) = []"
    using silent_recording(1) by blast
  obtain seen where seen:
    "stop_recording (js ''dg-key'') silence
       (setState (\<lambda>prev. prev\<lparr>isListening := False, isProcessing := True\<rparr>)
          (startListening (js ''dg-key'') (screenOptions demoParams) startsFine mountScreen)) = Normal seen"
    "js_trim (fullTranscript seen) = []"
    using silent_recording(2) by blast
  have o: "onError listeningOptions = Some (\<lambda>message heard. heard @ [message])"
    "env_playbackMode silence = Fulfilled ()"
    by (simp_all add: listeningOptions_def silence_def)
  note reported = C7_empty_transcript_is_reported_and_dropped
    [OF heard, of listeningOptions "\<lambda>message heard. heard @ [message]"]
  note dropped = C7_empty_transcript_is_reported_and_dropped
    [OF seen, of "screenOptions demoParams"]
  have "ui (stopListening (js ''dg-key'') listeningOptions silence
         (startListening (js ''dg-key'') listeningOptions startsFine (mount [])))
     = (\<lambda>message heard. heard @ [message]) noSpeechMessage
         (ui (startListening (js ''dg-key'') listeningOptions startsFine (mount [])))"
    using reported o by blast
  then have a: "ui (stopListening (js ''dg-key'') listeningOptions silence
         (startListening (js ''dg-key'') listeningOptions startsFine (mount [])))
     = [js ''No speech detected. Please try again.'']"
    by (simp add: silent_recording(3) noSpeechMessage_def)
  have n: "onError (screenOptions demoParams) = None" by simp
  have "ui (stopListening (js ''dg-key'') (screenOptions demoParams) silence
         (startListening (js ''dg-key'') (screenOptions demoParams) startsFine mountScreen))
     = ui (startListening (js ''dg-key'') (screenOptions demoParams) startsFine mountScreen)"
    using dropped n by blast
  then have b: "messages (ui (stopListening (js ''dg-key'') (screenOptions demoParams) silence
         (startListening (js ''dg-key'') (screenOptions demoParams) startsFine mountScreen))) = []"
    by (simp add: silent_recording(4))
  have c: "\<not> isProcessing (state (stopListening (js ''dg-key'') (screenOptions demoParams) silence
         (startListening (js ''dg-key'') (screenOptions demoParams) startsFine mountScreen)))"
    using dropped by blast
  have "utterances (effects (stopListening (js ''dg-key'') (screenOptions demoParams) silence
         (startListening (js ''dg-key'') (screenOptions demoParams) startsFine mountScreen)))
     = utterances (effects (startListening (js ''dg-key'') (screenOptions demoParams) startsFine mountScreen))"
    using dropped by blast
  then have d: "utterances (effects (stopListening (js ''dg-key'') (screenOptions demoParams) silence
         (startListening (js ''dg-key'') (screenOptions demoParams) startsFine mountScreen))) = 0"
    by (simp add: silent_recording(5))
  show ?thesis using a b c d by blast
qed




text \<open>
  C9. The claim: on every exit path of \<open>stopListening\<close>, the error path included, the audio
  session is put back into non-recording mode. The code resets the mode as the last statement
  of the \<open>try\<close> block, so the \<open>catch\<close> path skips it: a hook that was listening (recording
  mode on) and whose \<open>stopAndUnloadAsync\<close> rejects ends the turn with the error reported,
  recording mode still on, and no call that would switch it off. \<open>cleanup\<close>, which stops a
  recording when the component unmounts, does not reset the mode either.
\<close>

theorem C9_error_path_leaves_recording_mode_on:
  "allowsRecordingIOS (startListening [] plainOptions startsFine (mount ()))
   \<and> allowsRecordingIOS
        (stopListening [] plainOptions unloadFails
           (startListening [] plainOptions startsFine (mount ())))
   \<and> SetAudioMode False \<notin> set (effects
        (stopListening [] plainOptions unloadFails
           (startListening [] plainOptions startsFine (mount ()))))
   \<and> error (state (stopListening [] plainOptions unloadFails
           (startListening [] plainOptions startsFine (mount ()))))
      = Some (js ''Cannot unload a Recording that has not been prepared.'')
   \<and> \<not> isProcessing (state (stopListening [] plainOptions unloadFails
           (startListening [] plainOptions startsFine (mount ()))))
   \<and> allowsRecordingIOS (cleanup (startListening [] plainOptions startsFine (mount ())))
   \<and> \<not> recording (cleanup (startListening [] plainOptions startsFine (mount ())))"
  by (simp add: stopListening_def stopListening_dispatch_def stop_recording_def stop_catch_def
      startListening_def configure_audio_def start_recording_def keyMissing_def Let_def mount_def
      plainOptions_def startsFine_def unloadFails_def cleanup_def js_def)

text \<open>
  C10. The guard is spent only by a positive check: as long as every reply that arrives is
  negative (\<open>shouldTrigger\<close> false) or a failure (\<open>null\<close>), the guard stays unset and no
  prompt is shown, so that a later check that does observe \<open>shouldTrigger = true\<close> shows
  the prompt.
\<close>

theorem C10_negative_checks_keep_the_guard:
  assumes "\<forall>r. ReplyArrives r \<in> set events \<longrightarrow> \<not> positive r"
  shows "\<not> hasTriggeredThisSessionRef (fst (provider_run events (mountProvider current)))
    \<and> alerts (fst (provider_run events (mountProvider current))) = []
    \<and> (positive reply \<longrightarrow>
         alerts (checkAndPrompt reply (fst (provider_run events (mountProvider current))))
           = [js ''Is it a good time to talk?''])"
  using provider_run_negative [OF assms, of "mountProvider current"]
  by (auto simp: mountProvider_def checkAndPrompt_def positive_def Let_def split: option.splits)

theorem C10_negative_checks_witness:
  "\<not> positive replyNo \<and> \<not> positive FetchFailed \<and> positive replyYes
   \<and> alerts (fst (provider_run
        [ReplyArrives replyNo, IntervalTick 120000, ReplyArrives FetchFailed]
        (mountProvider Active))) = []
   \<and> alerts (checkAndPrompt replyYes (fst (provider_run
        [ReplyArrives replyNo, IntervalTick 120000, ReplyArrives FetchFailed]
        (mountProvider Active)))) = [js ''Is it a good time to talk?'']"
proof -
  have neg: "\<forall>r. ReplyArrives r \<in> set [ReplyArrives replyNo, IntervalTick 120000,
      ReplyArrives FetchFailed] \<longrightarrow> \<not> positive r"
    by (simp add: positive_def replyNo_def checkScheduleFromBackend_def)
  have pos: "positive replyYes"
    by (simp add: positive_def replyYes_def checkScheduleFromBackend_def)
  from C10_negative_checks_keep_the_guard [OF neg, of Active replyYes] pos neg
  show ?thesis by simp
qed


end
